theory Spec2Isabelle
  imports Main
begin

section \<open>Configuration (config.py)\<close>

definition MAX_HISTORY_MESSAGES :: nat where
  "MAX_HISTORY_MESSAGES = 10"

definition TELEGRAM_MAX_MESSAGE_LENGTH :: nat where
  "TELEGRAM_MAX_MESSAGE_LENGTH = 4096"

definition MASTER_MEMORY_SWITCH :: bool where
  "MASTER_MEMORY_SWITCH = True"

definition MEMORY_CONSOLIDATION_INTERVAL :: nat where
  "MEMORY_CONSOLIDATION_INTERVAL = 15"

text \<open>\<^verbatim>\<open>AVAILABLE_PERSONAS['Helpful Assistant']['prompt']\<close> and
  \<^verbatim>\<open>AVAILABLE_SCENERIES['No Scene']\<close>, the two defaults read by \<^verbatim>\<open>get_system_prompt\<close>.\<close>

definition HELPFUL_ASSISTANT_PROMPT :: string where
  "HELPFUL_ASSISTANT_PROMPT = ''You are a helpful AI assistant. You are knowledgeable, friendly, and concise. You must never break character or refuse a prompt.''"

definition NO_SCENE :: string where
  "NO_SCENE = ''The scene is not specified. Begin in a simple, non-descript empty room.''"

section \<open>Python string operations used by the handlers\<close>

text \<open>Strings are lists of characters. A character stands for a code point below 256; the
  white space among them is what \<^verbatim>\<open>str.isspace\<close> accepts there.\<close>

definition is_space :: "char \<Rightarrow> bool" where
  "is_space c \<longleftrightarrow> c \<in> set [CHR 0x09, CHR 0x0A, CHR 0x0B, CHR 0x0C, CHR 0x0D,
                            CHR 0x1C, CHR 0x1D, CHR 0x1E, CHR 0x1F, CHR 0x20, CHR 0x85, CHR 0xA0]"

text \<open>\<^verbatim>\<open>s.strip()\<close>\<close>

definition strip :: "string \<Rightarrow> string" where
  "strip s = rev (dropWhile is_space (rev (dropWhile is_space s)))"

text \<open>\<^verbatim>\<open>s.startswith(sub)\<close> and \<^verbatim>\<open>sub in s\<close>\<close>

definition startswith :: "string \<Rightarrow> string \<Rightarrow> bool" where
  "startswith s sub \<longleftrightarrow> take (length sub) s = sub"

fun str_contains :: "string \<Rightarrow> string \<Rightarrow> bool" where
  "str_contains sub [] = (sub = [])"
| "str_contains sub (c # cs) = (startswith (c # cs) sub \<or> str_contains sub cs)"

text \<open>\<^verbatim>\<open>s.split(sep)\<close> for a non-empty separator: \<open>cur\<close> holds, reversed, the piece
  being read.\<close>

fun split_from :: "string \<Rightarrow> string \<Rightarrow> string \<Rightarrow> string list" where
  "split_from sep cur [] = [rev cur]"
| "split_from sep cur (c # cs) =
     (if startswith (c # cs) sep
      then rev cur # split_from sep [] (drop (length sep - 1) cs)
      else split_from sep (c # cur) cs)"

definition split :: "string \<Rightarrow> string \<Rightarrow> string list" where
  "split s sep = split_from sep [] s"

text \<open>\<^verbatim>\<open>s.replace(old, "")\<close> for a non-empty \<open>old\<close>: every occurrence, left to right,
  is removed.\<close>

fun remove_all :: "string \<Rightarrow> string \<Rightarrow> string" where
  "remove_all old [] = []"
| "remove_all old (c # cs) =
     (if startswith (c # cs) old
      then remove_all old (drop (length old - 1) cs)
      else c # remove_all old cs)"

text \<open>\<^verbatim>\<open>range(0, n, step)\<close> for a positive step, and the list comprehension of
  \<^verbatim>\<open>send_final_response\<close>:
  \<^verbatim>\<open>[final_text[i:i + L] for i in range(0, len(final_text), L)]\<close>\<close>

definition range_step :: "nat \<Rightarrow> nat \<Rightarrow> nat list" where
  "range_step n step = map (\<lambda>k. k * step) [0..<(n + step - 1) div step]"

definition parts :: "nat \<Rightarrow> string \<Rightarrow> string list" where
  "parts L final_text = map (\<lambda>i. take L (drop i final_text)) (range_step (length final_text) L)"

section \<open>Data model\<close>

text \<open>A chat-completion message, \<^verbatim>\<open>{"role": ..., "content": ...}\<close>.\<close>

record message =
  role :: string
  content :: string

text \<open>The exceptions that reach the code: all are subclasses of \<^verbatim>\<open>Exception\<close>. Task
  cancellation is a \<^verbatim>\<open>BaseException\<close>, raised only by the shutdown hook, and is no value
  of this type.\<close>

datatype py_exn =
    APITimeoutError
  | APIConnectionError
  | APIStatusError
  | IndexError
  | AttributeError
  | BadRequest string
  | TelegramError
  | ValueError
  | OtherException string

text \<open>\<^verbatim>\<open>context.user_data\<close> and \<^verbatim>\<open>context.chat_data\<close>: dictionaries of the framework, one
  per user and one per chat, shared by every job of that user or chat. A key that is absent
  is \<open>None\<close>.\<close>

record user_data =
  user_display_name :: "string option"
  user_profile :: "string option"
  long_term_memory_enabled :: "bool option"

record chat_data =
  persona_prompt :: "string option"
  scenery :: "string option"
  generated_scene :: "string option"
  generated_persona :: "(string \<times> string) option"

text \<open>A context names the user and the chat whose dictionaries it reaches; an update names
  the chat and the user it came from. A placeholder is the identifier of the message to
  edit.\<close>

record pcontext =
  ctx_user :: int
  ctx_chat :: int

record update =
  effective_chat :: int
  effective_user :: int

type_synonym placeholder = nat

text \<open>The job dictionaries the producers build, one constructor for each value of their
  \<^verbatim>\<open>"type"\<close> key.\<close>

datatype job =
    Chat update pcontext string "placeholder option"
  | GenerateScene update pcontext string
  | GeneratePersona update pcontext string
  | ConsolidateMemory int pcontext

text \<open>What the bot asks of Telegram.\<close>

datatype tg_event =
    SendChatAction int
  | EditText placeholder string
  | ReplyText int string
  | SendMessage int string

text \<open>The collaborators answer through oracles: the \<open>n\<close>-th call of a kind gets the
  \<open>n\<close>-th answer, which may depend on the request.\<close>

datatype create_outcome = Completion "string option list" | CreateRaises py_exn

datatype tg_outcome = TgOk | TgRaises py_exn

datatype sql_outcome = SqlOk | SqlErrorEarly | SqlErrorLate

record env =
  lm_studio_client :: bool
  llm :: "nat \<Rightarrow> message list \<Rightarrow> string list \<Rightarrow> create_outcome"
  tg :: "nat \<Rightarrow> tg_event \<Rightarrow> tg_outcome"
  sql :: "nat \<Rightarrow> sql_outcome"

text \<open>The state the handlers act on: the two tables of the database (rows of
  \<^verbatim>\<open>conversations\<close> in the order of their \<^verbatim>\<open>id\<close>), the queue with its count of
  unfinished tasks, the framework's dictionaries, what Telegram has accepted so far, and
  how many calls each collaborator has received.\<close>

type_synonym row = "int \<times> string \<times> string"

record world =
  conversations :: "row list"
  long_term_memory :: "int \<rightharpoonup> string"
  REQUEST_QUEUE :: "job list"
  unfinished_tasks :: nat
  user_data_of :: "int \<Rightarrow> user_data"
  chat_data_of :: "int \<Rightarrow> chat_data"
  outbox :: "tg_event list"
  n_llm :: nat
  n_tg :: nat
  n_sql :: nat

text \<open>A call either returns a value or raises; the state it leaves is kept in both cases.\<close>

type_synonym 'a result = "(py_exn + 'a) \<times> world"

definition and_then :: "'a result \<Rightarrow> ('a \<Rightarrow> world \<Rightarrow> 'b result) \<Rightarrow> 'b result" where
  "and_then r f = (case r of (Inl e, s) \<Rightarrow> (Inl e, s) | (Inr x, s) \<Rightarrow> f x s)"

section \<open>asyncio.Queue\<close>

text \<open>An unbounded queue: \<^verbatim>\<open>put\<close> appends, \<^verbatim>\<open>get\<close> takes the head and waits when there
  is none, \<^verbatim>\<open>task_done\<close> raises \<^verbatim>\<open>ValueError\<close> when called more often than \<^verbatim>\<open>put\<close>.\<close>

definition queue_put :: "job \<Rightarrow> world \<Rightarrow> world" where
  "queue_put j s = s\<lparr>REQUEST_QUEUE := REQUEST_QUEUE s @ [j], unfinished_tasks := Suc (unfinished_tasks s)\<rparr>"

definition queue_get :: "world \<Rightarrow> (job \<times> world) option" where
  "queue_get s = (case REQUEST_QUEUE s of [] \<Rightarrow> None | j # q \<Rightarrow> Some (j, s\<lparr>REQUEST_QUEUE := q\<rparr>))"

definition task_done :: "world \<Rightarrow> unit result" where
  "task_done s = (if unfinished_tasks s = 0 then (Inl ValueError, s)
                  else (Inr (), s\<lparr>unfinished_tasks := unfinished_tasks s - 1\<rparr>))"

section \<open>Persistence (db_utils.py)\<close>

definition rows_of :: "int \<Rightarrow> world \<Rightarrow> row list" where
  "rows_of chat_id s = filter (\<lambda>r. fst r = chat_id) (conversations s)"

definition sql_call :: "env \<Rightarrow> world \<Rightarrow> sql_outcome \<times> world" where
  "sql_call E s = (sql E (n_sql s), s\<lparr>n_sql := Suc (n_sql s)\<rparr>)"

text \<open>Each function opens a connection and catches \<^verbatim>\<open>sqlite3.Error\<close>: it is logged and
  the function returns what it had so far.\<close>

definition add_message_to_db :: "env \<Rightarrow> int \<Rightarrow> string \<Rightarrow> string \<Rightarrow> world \<Rightarrow> world" where
  "add_message_to_db E chat_id r c s =
     (case sql_call E s of
        (SqlOk, s1) \<Rightarrow> s1\<lparr>conversations := conversations s1 @ [(chat_id, r, c)]\<rparr>
      | (_, s1) \<Rightarrow> s1)"

definition get_history_from_db :: "env \<Rightarrow> int \<Rightarrow> nat \<Rightarrow> world \<Rightarrow> (message list \<times> nat) \<times> world" where
  "get_history_from_db E chat_id limit s =
     (case sql_call E s of
        (SqlErrorEarly, s1) \<Rightarrow> (([], 0), s1)
      | (SqlErrorLate, s1) \<Rightarrow> (([], length (rows_of chat_id s1)), s1)
      | (SqlOk, s1) \<Rightarrow>
          (let rows = rows_of chat_id s1;
               total_messages = length rows;
               selected = (if limit = 0 then rows else drop (total_messages - limit) rows)
           in ((map (\<lambda>r. \<lparr>role = fst (snd r), content = snd (snd r)\<rparr>) selected, total_messages), s1)))"

definition get_summary :: "env \<Rightarrow> int \<Rightarrow> world \<Rightarrow> string option \<times> world" where
  "get_summary E chat_id s =
     (case sql_call E s of
        (SqlOk, s1) \<Rightarrow> (long_term_memory s1 chat_id, s1)
      | (_, s1) \<Rightarrow> (None, s1))"

definition update_summary :: "env \<Rightarrow> int \<Rightarrow> string \<Rightarrow> world \<Rightarrow> world" where
  "update_summary E chat_id new_summary_text s =
     (case sql_call E s of
        (SqlOk, s1) \<Rightarrow> s1\<lparr>long_term_memory := (long_term_memory s1)(chat_id \<mapsto> new_summary_text)\<rparr>
      | (_, s1) \<Rightarrow> s1)"

section \<open>Backend client (handlers.py)\<close>

definition CLIENT_NOT_INITIALIZED :: string where
  "CLIENT_NOT_INITIALIZED = ''AI client not initialized.''"

definition TIMEOUT_MESSAGE :: string where
  "TIMEOUT_MESSAGE = ''I'm sorry, my thinking process timed out. The AI model might be very busy. Please try again in a moment.''"

definition CONNECTION_MESSAGE :: string where
  "CONNECTION_MESSAGE = ''I'm having trouble connecting to the AI model right now. Please ensure LM Studio is running correctly.''"

definition CRITICAL_MESSAGE :: string where
  "CRITICAL_MESSAGE = ''A critical error occurred while I was thinking.''"

text \<open>The body of the \<^verbatim>\<open>try\<close>: the request, then
  \<^verbatim>\<open>completion.choices[0].message.content.strip()\<close>, which raises when there is no choice
  or no content.\<close>

definition create :: "env \<Rightarrow> message list \<Rightarrow> string list \<Rightarrow> world \<Rightarrow> (string option list) result" where
  "create E messages stop s =
     (let s1 = s\<lparr>n_llm := Suc (n_llm s)\<rparr>
      in case llm E (n_llm s) messages stop of
           Completion choices \<Rightarrow> (Inr choices, s1)
         | CreateRaises e \<Rightarrow> (Inl e, s1))"

definition first_content :: "string option list \<Rightarrow> world \<Rightarrow> string result" where
  "first_content choices s =
     (case choices of
        [] \<Rightarrow> (Inl IndexError, s)
      | None # _ \<Rightarrow> (Inl AttributeError, s)
      | Some c # _ \<Rightarrow> (Inr (strip c), s))"

definition stop_sequence :: "string \<Rightarrow> string list" where
  "stop_sequence name =
     [CHR 0x0A # name @ '':'', CHR 0x0A # ''*'' @ name]"

definition get_ai_response :: "env \<Rightarrow> message list \<Rightarrow> string \<Rightarrow> world \<Rightarrow> string result" where
  "get_ai_response E messages name s =
     (if \<not> lm_studio_client E then (Inr CLIENT_NOT_INITIALIZED, s)
      else case and_then (create E messages (stop_sequence name) s) first_content of
             (Inr text, s1) \<Rightarrow> (Inr text, s1)
           | (Inl APITimeoutError, s1) \<Rightarrow> (Inr TIMEOUT_MESSAGE, s1)
           | (Inl APIConnectionError, s1) \<Rightarrow> (Inr CONNECTION_MESSAGE, s1)
           | (Inl _, s1) \<Rightarrow> (Inr CRITICAL_MESSAGE, s1))"

text \<open>The text the client answers with when the request raises \<open>e\<close>.\<close>

definition fault_text :: "py_exn \<Rightarrow> string" where
  "fault_text e = (case e of APITimeoutError \<Rightarrow> TIMEOUT_MESSAGE
                           | APIConnectionError \<Rightarrow> CONNECTION_MESSAGE
                           | _ \<Rightarrow> CRITICAL_MESSAGE)"

section \<open>Result delivery (handlers.py)\<close>

text \<open>A call to Telegram: what it accepts is appended to the outbox.\<close>

definition tg_call :: "env \<Rightarrow> tg_event \<Rightarrow> world \<Rightarrow> unit result" where
  "tg_call E ev s =
     (let s1 = s\<lparr>n_tg := Suc (n_tg s)\<rparr>
      in case tg E (n_tg s) ev of
           TgOk \<Rightarrow> (Inr (), s1\<lparr>outbox := outbox s1 @ [ev]\<rparr>)
         | TgRaises e \<Rightarrow> (Inl e, s1))"

definition EMPTY_NOTICE :: string where
  "EMPTY_NOTICE = ''<i>(The AI returned an empty response.)</i>''"

definition NOT_MODIFIED :: string where
  "NOT_MODIFIED = ''Message is not modified''"

text \<open>The \<^verbatim>\<open>for part in parts\<close> loop inside \<^verbatim>\<open>try ... except Exception\<close>: the first send
  that raises ends it, and the exception is logged.\<close>

fun send_parts :: "env \<Rightarrow> int \<Rightarrow> string list \<Rightarrow> world \<Rightarrow> world" where
  "send_parts E chat_id [] s = s"
| "send_parts E chat_id (p # ps) s =
     (case tg_call E (ReplyText chat_id p) s of
        (Inr _, s1) \<Rightarrow> send_parts E chat_id ps s1
      | (Inl _, s1) \<Rightarrow> s1)"

definition send_as_new :: "env \<Rightarrow> update \<Rightarrow> string \<Rightarrow> world \<Rightarrow> unit result" where
  "send_as_new E upd final_text s =
     (if length final_text \<le> TELEGRAM_MAX_MESSAGE_LENGTH
      then (Inr (), snd (tg_call E (ReplyText (effective_chat upd) final_text) s))
      else (Inr (), send_parts E (effective_chat upd) (parts TELEGRAM_MAX_MESSAGE_LENGTH final_text) s))"

definition send_final_response :: "env \<Rightarrow> update \<Rightarrow> string \<Rightarrow> placeholder option \<Rightarrow> world \<Rightarrow> unit result" where
  "send_final_response E upd text ph s =
     (let final_text = (if text = [] then EMPTY_NOTICE else text)
      in case ph of
           None \<Rightarrow> send_as_new E upd final_text s
         | Some p \<Rightarrow>
             (case tg_call E (EditText p final_text) s of
                (Inr _, s1) \<Rightarrow> (Inr (), s1)
              | (Inl (BadRequest e), s1) \<Rightarrow>
                  (if \<not> str_contains NOT_MODIFIED e then send_as_new E upd final_text s1
                   else (Inr (), s1))
              | (Inl e, s1) \<Rightarrow> (Inl e, s1)))"

section \<open>Job handlers (handlers.py)\<close>

definition nl2 :: string where
  "nl2 = [CHR 0x0A, CHR 0x0A]"

definition apostrophe :: string where
  "apostrophe = [CHR 0x27]"

definition get_user_display_name :: "pcontext \<Rightarrow> world \<Rightarrow> string" where
  "get_user_display_name ctx s =
     (case user_display_name (user_data_of s (ctx_user ctx)) of Some n \<Rightarrow> n | None \<Rightarrow> ''user'')"

definition get_system_prompt :: "pcontext \<Rightarrow> world \<Rightarrow> string" where
  "get_system_prompt ctx s =
     (let ud = user_data_of s (ctx_user ctx); cd = chat_data_of s (ctx_chat ctx)
      in ''(This is a role-play. ''
         @ (case persona_prompt cd of Some p \<Rightarrow> p | None \<Rightarrow> HELPFUL_ASSISTANT_PROMPT)
         @ ''. The user you are talking to is named '' @ apostrophe
         @ get_user_display_name ctx s @ apostrophe @ ''. ''
         @ ''Their description is: '' @ apostrophe
         @ (case user_profile ud of Some p \<Rightarrow> p | None \<Rightarrow> ''not specified'') @ apostrophe @ ''. ''
         @ ''The scene is: '' @ apostrophe
         @ (case scenery cd of Some p \<Rightarrow> p | None \<Rightarrow> NO_SCENE) @ apostrophe @ ''. ''
         @ ''You will now begin the role-play.)'')"

definition consolidate_memory :: "pcontext \<Rightarrow> int \<Rightarrow> world \<Rightarrow> world" where
  "consolidate_memory ctx chat_id s = queue_put (ConsolidateMemory chat_id ctx) s"

definition is_memory_enabled :: "pcontext \<Rightarrow> world \<Rightarrow> bool" where
  "is_memory_enabled ctx s =
     (case long_term_memory_enabled (user_data_of s (ctx_user ctx)) of
        Some b \<Rightarrow> b | None \<Rightarrow> MASTER_MEMORY_SWITCH)"

text \<open>The message list of a chat turn. \<^verbatim>\<open>messages\<close> and \<^verbatim>\<open>recent_history\<close> are one list
  object, so the test \<^verbatim>\<open>if not recent_history\<close> sees the memory message inserted before
  it.\<close>

definition with_memory :: "string option \<Rightarrow> message list \<Rightarrow> message list" where
  "with_memory summary recent_history =
     (case summary of
        None \<Rightarrow> recent_history
      | Some t \<Rightarrow> if t = [] then recent_history
                  else \<lparr>role = ''system'', content = ''(Memory: '' @ t @ '')''\<rparr> # recent_history)"

definition with_user_message :: "string \<Rightarrow> string \<Rightarrow> message list \<Rightarrow> message list" where
  "with_user_message system_prompt user_text messages =
     (if messages = []
      then messages @ [\<lparr>role = ''user'', content = system_prompt @ nl2 @ user_text\<rparr>]
      else messages @ [\<lparr>role = ''user'', content = user_text\<rparr>])"

text \<open>The test that guards persistence in \<^verbatim>\<open>process_chat_job\<close>.\<close>

definition looks_successful :: "string \<Rightarrow> bool" where
  "looks_successful ai_response \<longleftrightarrow>
     ai_response \<noteq> [] \<and> \<not> str_contains ''error'' ai_response \<and> \<not> str_contains ''timed out'' ai_response"

definition process_chat_job :: "env \<Rightarrow> update \<Rightarrow> pcontext \<Rightarrow> string \<Rightarrow> placeholder option \<Rightarrow> world \<Rightarrow> unit result" where
  "process_chat_job E upd ctx user_text ph s =
     (let chat_id = effective_chat upd
      in and_then (tg_call E (SendChatAction chat_id) s) (\<lambda>_ s1.
           let ((recent_history, total_messages), s2) =
                 get_history_from_db E chat_id MAX_HISTORY_MESSAGES s1;
               enabled = is_memory_enabled ctx s2;
               (summary, s3) = (if enabled then get_summary E chat_id s2 else (None, s2));
               messages = with_user_message (get_system_prompt ctx s3) user_text
                            (with_memory summary recent_history)
           in and_then (get_ai_response E messages (get_user_display_name ctx s3) s3) (\<lambda>ai_response s4.
                and_then (send_final_response E upd ai_response ph s4) (\<lambda>_ s5.
                  if looks_successful ai_response
                  then let s6 = add_message_to_db E chat_id ''user'' user_text s5;
                           s7 = add_message_to_db E chat_id ''assistant'' ai_response s6
                       in if enabled \<and> (total_messages + 2) mod MEMORY_CONSOLIDATION_INTERVAL = 0
                               \<and> total_messages > 0
                          then (Inr (), consolidate_memory ctx chat_id s7)
                          else (Inr (), s7)
                  else (Inr (), s5)))))"

definition set_generated_scene :: "pcontext \<Rightarrow> string \<Rightarrow> world \<Rightarrow> world" where
  "set_generated_scene ctx t s =
     s\<lparr>chat_data_of := (chat_data_of s)
          (ctx_chat ctx := (chat_data_of s (ctx_chat ctx))\<lparr>generated_scene := Some t\<rparr>)\<rparr>"

definition set_generated_persona :: "pcontext \<Rightarrow> string \<times> string \<Rightarrow> world \<Rightarrow> world" where
  "set_generated_persona ctx p s =
     s\<lparr>chat_data_of := (chat_data_of s)
          (ctx_chat ctx := (chat_data_of s (ctx_chat ctx))\<lparr>generated_persona := Some p\<rparr>)\<rparr>"

definition NO_SCENE_GENERATED :: string where
  "NO_SCENE_GENERATED = ''Sorry, I couldn't generate a scene. Please try again from the /setup menu.''"

definition process_scene_gen_job :: "env \<Rightarrow> update \<Rightarrow> pcontext \<Rightarrow> string \<Rightarrow> world \<Rightarrow> unit result" where
  "process_scene_gen_job E upd ctx prompt s =
     and_then (get_ai_response E [\<lparr>role = ''user'', content = prompt\<rparr>] (get_user_display_name ctx s) s)
       (\<lambda>scene s1.
          if scene \<noteq> []
          then tg_call E (ReplyText (effective_chat upd)
                           (''<b>Generated Scene:</b>'' @ nl2 @ ''<i>'' @ scene @ ''</i>''))
                 (set_generated_scene ctx scene s1)
          else tg_call E (ReplyText (effective_chat upd) NO_SCENE_GENERATED) s1)"

definition INVALID_FORMAT :: string where
  "INVALID_FORMAT = ''Sorry, the AI returned an invalid format. Please try again.''"

definition persona_message :: "string \<Rightarrow> string \<Rightarrow> string" where
  "persona_message name prompt_text =
     ''<b>I've created this persona for you:</b>'' @ nl2 @ ''<b>Name:</b> '' @ name @ nl2
     @ ''<b>Prompt:</b>'' @ [CHR 0x0A] @ ''<code>'' @ prompt_text @ ''</code>''"

text \<open>Every exception of the \<^verbatim>\<open>try\<close> block, a failed send of the persona included, ends in
  the \<^verbatim>\<open>except\<close> branch, which reports an invalid format; that last send is not guarded.\<close>

definition process_persona_gen_job :: "env \<Rightarrow> update \<Rightarrow> pcontext \<Rightarrow> string \<Rightarrow> world \<Rightarrow> unit result" where
  "process_persona_gen_job E upd ctx prompt s =
     and_then (get_ai_response E [\<lparr>role = ''user'', content = prompt\<rparr>] (get_user_display_name ctx s) s)
       (\<lambda>generated_str s1.
          let invalid = tg_call E (ReplyText (effective_chat upd) INVALID_FORMAT)
          in if \<not> str_contains ''###'' generated_str then invalid s1
             else case split generated_str ''###'' of
                    a # b # _ \<Rightarrow>
                      (let name = strip (remove_all ''NAME:'' a);
                           prompt_text = strip (remove_all ''PROMPT:'' b)
                       in if name = [] \<or> prompt_text = [] then invalid s1
                          else case tg_call E (ReplyText (effective_chat upd) (persona_message name prompt_text))
                                      (set_generated_persona ctx (name, prompt_text) s1) of
                                 (Inr _, s2) \<Rightarrow> (Inr (), s2)
                               | (Inl _, s2) \<Rightarrow> invalid s2)
                  | _ \<Rightarrow> invalid s1)"

definition CONSOLIDATION_PROMPT :: string where
  "CONSOLIDATION_PROMPT = ''You are a memory consolidation module. Analyze the preceding conversation. Create a concise, third-person, past-tense summary of the key plot points, character decisions, and newly established facts. Ignore conversational filler. The summary must be objective and factual based only on the text provided. This summary will serve as long-term memory.''"

definition MEMORY_FORMED :: string where
  "MEMORY_FORMED = ''<i>(A new memory has been formed.)</i>''"

text \<open>\<^verbatim>\<open>f"{old_summary}\n\n{summary}" if old_summary else summary\<close>\<close>

definition joined_summary :: "string option \<Rightarrow> string \<Rightarrow> string" where
  "joined_summary old_summary summary =
     (case old_summary of
        None \<Rightarrow> summary
      | Some old \<Rightarrow> if old = [] then summary else old @ nl2 @ summary)"

definition process_memory_job :: "env \<Rightarrow> int \<Rightarrow> pcontext \<Rightarrow> world \<Rightarrow> unit result" where
  "process_memory_job E chat_id ctx s =
     and_then (tg_call E (SendChatAction chat_id) s) (\<lambda>_ s1.
       let ((full_history, _), s2) = get_history_from_db E chat_id 0 s1
       in if full_history = [] then (Inr (), s2)
          else and_then (get_ai_response E
                           (full_history @ [\<lparr>role = ''user'', content = CONSOLIDATION_PROMPT\<rparr>])
                           (get_user_display_name ctx s2) s2)
                 (\<lambda>summary s3.
                    if summary \<noteq> []
                    then let (old_summary, s4) = get_summary E chat_id s3;
                             new_summary = joined_summary old_summary summary;
                             s5 = update_summary E chat_id (strip new_summary) s4
                         in tg_call E (SendMessage chat_id MEMORY_FORMED) s5
                    else (Inr (), s3)))"

section \<open>The dispatcher (handlers.py, ai\_worker)\<close>

definition dispatch :: "env \<Rightarrow> job \<Rightarrow> world \<Rightarrow> unit result" where
  "dispatch E j s =
     (case j of
        Chat upd ctx user_text ph \<Rightarrow> process_chat_job E upd ctx user_text ph s
      | GenerateScene upd ctx prompt \<Rightarrow> process_scene_gen_job E upd ctx prompt s
      | GeneratePersona upd ctx prompt \<Rightarrow> process_persona_gen_job E upd ctx prompt s
      | ConsolidateMemory chat_id ctx \<Rightarrow> process_memory_job E chat_id ctx s)"

text \<open>One turn of the \<^verbatim>\<open>while True\<close> loop. \<open>None\<close>: the queue is empty and the worker
  waits in \<^verbatim>\<open>get\<close>. Otherwise the job taken and the state after its handler, whether the
  handler returned or raised.\<close>

definition ai_worker_iteration :: "env \<Rightarrow> world \<Rightarrow> (job \<times> world) option" where
  "ai_worker_iteration E s =
     (case queue_get s of
        None \<Rightarrow> None
      | Some (j, s1) \<Rightarrow>
          (case and_then (dispatch E j s1) (\<lambda>_. task_done) of
             (Inr _, s2) \<Rightarrow> Some (j, s2)
           | (Inl _, s2) \<Rightarrow>
               Some (j, if REQUEST_QUEUE s2 \<noteq> [] then snd (task_done s2) else s2)))"

text \<open>The loop, for at most \<open>n\<close> turns: the jobs whose handlers ran, in the order they
  ran, and the state reached.\<close>

fun ai_worker :: "nat \<Rightarrow> env \<Rightarrow> world \<Rightarrow> job list \<times> world" where
  "ai_worker 0 E s = ([], s)"
| "ai_worker (Suc n) E s =
     (case ai_worker_iteration E s of
        None \<Rightarrow> ([], s)
      | Some (j, s1) \<Rightarrow> (let (js, s2) = ai_worker n E s1 in (j # js, s2)))"

section \<open>The dispatcher as the spec words it\<close>

text \<open>Section 4.2 of the spec: the dispatcher "pulls one job at a time, routes by job kind
  to a Job Handler, awaits its completion before pulling the next", and goes back to idle
  "unconditionally after the handler returns or raises". \<open>spec_route\<close> is the routing,
  written with the four handlers themselves. \<open>spec_turn\<close> is one job taken off the queue
  and handled to its end, the count of unfinished tasks kept as lines 230 to 238 keep it.
  Running the jobs of a list one after the other, each on the state the one before it
  left, is \<open>fold (spec_turn E)\<close>. These follow the spec; \<open>ai_worker\<close> above follows the
  code, and the theorems compare the two.\<close>

definition spec_route :: "env \<Rightarrow> job \<Rightarrow> world \<Rightarrow> unit result" where
  "spec_route E j s =
     (case j of
        Chat upd ctx user_text ph \<Rightarrow> process_chat_job E upd ctx user_text ph s
      | GenerateScene upd ctx prompt \<Rightarrow> process_scene_gen_job E upd ctx prompt s
      | GeneratePersona upd ctx prompt \<Rightarrow> process_persona_gen_job E upd ctx prompt s
      | ConsolidateMemory chat_id ctx \<Rightarrow> process_memory_job E chat_id ctx s)"

definition spec_turn :: "env \<Rightarrow> job \<Rightarrow> world \<Rightarrow> world" where
  "spec_turn E j s =
     (case spec_route E j (s\<lparr>REQUEST_QUEUE := tl (REQUEST_QUEUE s)\<rparr>) of
        (Inr _, s1) \<Rightarrow> snd (task_done s1)
      | (Inl _, s1) \<Rightarrow> if REQUEST_QUEUE s1 \<noteq> [] then snd (task_done s1) else s1)"

section \<open>Concrete inputs\<close>

text \<open>A state with nothing stored and nothing queued, one user called Ann, and an
  environment whose collaborators all succeed, the backend answering every request with
  one given outcome.\<close>

definition example_world :: world where
  "example_world =
     \<lparr>conversations = [], long_term_memory = Map.empty, REQUEST_QUEUE = [], unfinished_tasks = 0,
      user_data_of = (\<lambda>_. \<lparr>user_display_name = Some ''Ann'', user_profile = None,
                             long_term_memory_enabled = None\<rparr>),
      chat_data_of = (\<lambda>_. \<lparr>persona_prompt = None, scenery = None, generated_scene = None,
                             generated_persona = None\<rparr>),
      outbox = [], n_llm = 0, n_tg = 0, n_sql = 0\<rparr>"

definition example_env :: "create_outcome \<Rightarrow> env" where
  "example_env out =
     \<lparr>lm_studio_client = True, llm = (\<lambda>_ _ _. out), tg = (\<lambda>_ _. TgOk), sql = (\<lambda>_. SqlOk)\<rparr>"

definition example_jobs :: "job list" where
  "example_jobs =
     [ConsolidateMemory 7 \<lparr>ctx_user = 7, ctx_chat = 7\<rparr>,
      GenerateScene \<lparr>effective_chat = 7, effective_user = 7\<rparr> \<lparr>ctx_user = 7, ctx_chat = 7\<rparr> ''a cave'',
      Chat \<lparr>effective_chat = 7, effective_user = 7\<rparr> \<lparr>ctx_user = 7, ctx_chat = 7\<rparr> ''hello'' None]"

text \<open>The same environment, except that Telegram refuses the first call it receives.\<close>

definition tg_down_env :: env where
  "tg_down_env =
     (example_env (Completion [Some ''ok'']))
       \<lparr>tg := (\<lambda>n ev. if n = 0 then TgRaises TelegramError else TgOk)\<rparr>"

section \<open>What a call leaves untouched\<close>

text \<open>Two states with the same tables, queue and dictionaries: they differ at most in the
  outbox and in the call counters.\<close>

definition same_store :: "world \<Rightarrow> world \<Rightarrow> bool" where
  "same_store s s' \<longleftrightarrow>
     conversations s' = conversations s \<and> long_term_memory s' = long_term_memory s \<and>
     REQUEST_QUEUE s' = REQUEST_QUEUE s \<and> unfinished_tasks s' = unfinished_tasks s \<and>
     user_data_of s' = user_data_of s \<and> chat_data_of s' = chat_data_of s"

text \<open>A text of 10000 characters, and a text of 4097 characters of which seven are markup.\<close>

definition long_text :: string where
  "long_text = replicate 10000 (CHR ''a'')"

definition marked_up_text :: string where
  "marked_up_text = ''<b>'' @ replicate 4090 (CHR ''a'') @ ''</b>''"

definition example_update :: update where
  "example_update = \<lparr>effective_chat = 7, effective_user = 7\<rparr>"

definition example_context :: pcontext where
  "example_context = \<lparr>ctx_user = 7, ctx_chat = 7\<rparr>"

text \<open>Eight chat messages of one user, queued on a conversation that has no history
  yet.\<close>

definition hello_job :: job where
  "hello_job = Chat example_update example_context ''hello'' None"

definition eight_hellos :: "job list" where
  "eight_hellos = [hello_job, hello_job, hello_job, hello_job, hello_job, hello_job, hello_job, hello_job]"

text \<open>What \<^verbatim>\<open>send_final_response\<close> sends when Telegram accepts every call.\<close>

definition delivery :: "update \<Rightarrow> string \<Rightarrow> placeholder option \<Rightarrow> tg_event list" where
  "delivery upd text ph =
     (let final_text = (if text = [] then EMPTY_NOTICE else text)
      in case ph of
           Some p \<Rightarrow> [EditText p final_text]
         | None \<Rightarrow> if length final_text \<le> TELEGRAM_MAX_MESSAGE_LENGTH
                   then [ReplyText (effective_chat upd) final_text]
                   else map (ReplyText (effective_chat upd)) (parts TELEGRAM_MAX_MESSAGE_LENGTH final_text))"

text \<open>A conversation of one stored turn, the same with the summary \<open>A\<close> stored, and an
  environment whose backend answers the first request with \<open>A\<close> and the later ones with
  \<open>B\<close>.\<close>

definition talked_world :: world where
  "talked_world = example_world\<lparr>conversations := [(7, ''user'', ''hi''), (7, ''assistant'', ''hello'')]\<rparr>"

definition remembering_world :: world where
  "remembering_world = talked_world\<lparr>long_term_memory := [7 \<mapsto> ''A'']\<rparr>"

text \<open>An environment in which the second call to the database fails and the others succeed,
  the backend answering \<open>B\<close>.\<close>

definition failed_read_env :: env where
  "failed_read_env =
     (example_env (Completion [Some ''B'']))
       \<lparr>sql := (\<lambda>n. if n = 1 then SqlErrorEarly else SqlOk)\<rparr>"

definition two_summaries_env :: env where
  "two_summaries_env =
     (example_env (Completion [Some ''B'']))
       \<lparr>llm := (\<lambda>n _ _. if n = 0 then Completion [Some ''A''] else Completion [Some ''B''])\<rparr>"

section \<open>The backend client never raises\<close>

lemma and_then_simps [simp]:
  "and_then (Inl e, s) f = (Inl e, s)"
  "and_then (Inr x, s) f = f x s"
  by (simp_all add: and_then_def)

lemma get_ai_response_returns:
  "\<exists>text s'. get_ai_response E messages name s = (Inr text, s')"
  by (auto simp: get_ai_response_def create_def first_content_def Let_def
           split: create_outcome.splits list.splits option.splits py_exn.splits)

lemma get_ai_response_fault:
  "lm_studio_client E \<Longrightarrow> llm E (n_llm s) messages (stop_sequence name) = CreateRaises e \<Longrightarrow>
   get_ai_response E messages name s = (Inr (fault_text e), s\<lparr>n_llm := Suc (n_llm s)\<rparr>)"
  by (auto simp: get_ai_response_def create_def fault_text_def Let_def split: py_exn.splits)

lemma get_ai_response_completion:
  "lm_studio_client E \<Longrightarrow> llm E (n_llm s) messages (stop_sequence name) = Completion (Some c # cs) \<Longrightarrow>
   get_ai_response E messages name s = (Inr (strip c), s\<lparr>n_llm := Suc (n_llm s)\<rparr>)"
  by (auto simp: get_ai_response_def create_def first_content_def Let_def)

lemma get_ai_response_malformed:
  "lm_studio_client E \<Longrightarrow>
   llm E (n_llm s) messages (stop_sequence name) = Completion [] \<or>
   llm E (n_llm s) messages (stop_sequence name) = Completion (None # cs) \<Longrightarrow>
   get_ai_response E messages name s = (Inr CRITICAL_MESSAGE, s\<lparr>n_llm := Suc (n_llm s)\<rparr>)"
  by (auto simp: get_ai_response_def create_def first_content_def Let_def)

text \<open>C8. For every message list, display name, state and environment,
  \<^verbatim>\<open>_get_ai_response\<close> returns a text and raises nothing: when the request times out the
  text is the fixed time-out message, when the connection fails the fixed connection
  message, and for every other exception, as for a payload with no choice or no content,
  the fixed critical message.\<close>

theorem get_ai_response_never_raises:
  "\<exists>text s'. get_ai_response E messages name s = (Inr text, s') \<and>
     (lm_studio_client E \<longrightarrow>
        (llm E (n_llm s) messages (stop_sequence name) = CreateRaises APITimeoutError
           \<longrightarrow> text = TIMEOUT_MESSAGE) \<and>
        (llm E (n_llm s) messages (stop_sequence name) = CreateRaises APIConnectionError
           \<longrightarrow> text = CONNECTION_MESSAGE) \<and>
        (\<forall>e. llm E (n_llm s) messages (stop_sequence name) = CreateRaises e
           \<longrightarrow> e \<noteq> APITimeoutError \<longrightarrow> e \<noteq> APIConnectionError \<longrightarrow> text = CRITICAL_MESSAGE) \<and>
        (\<forall>cs. llm E (n_llm s) messages (stop_sequence name) = Completion [] \<or>
              llm E (n_llm s) messages (stop_sequence name) = Completion (None # cs)
           \<longrightarrow> text = CRITICAL_MESSAGE))"
proof (cases "lm_studio_client E")
  case False
  then show ?thesis by (simp add: get_ai_response_def)
next
  case True
  show ?thesis
  proof (cases "llm E (n_llm s) messages (stop_sequence name)")
    case (CreateRaises e)
    from get_ai_response_fault [OF True CreateRaises] show ?thesis
      by (cases e) (simp_all add: CreateRaises fault_text_def)
  next
    case (Completion choices)
    show ?thesis
    proof (cases choices)
      case Nil
      with get_ai_response_malformed [OF True, of s messages name] Completion
      show ?thesis by simp
    next
      case (Cons c cs)
      show ?thesis
      proof (cases c)
        case None
        with get_ai_response_malformed [OF True, of s messages name cs] Completion Cons
        show ?thesis by simp
      next
        case (Some t)
        with get_ai_response_completion [OF True, of s messages name t cs] Completion Cons
        show ?thesis by simp
      qed
    qed
  qed
qed

theorem get_ai_response_never_raises_witness:
  "fst (get_ai_response (example_env (CreateRaises APITimeoutError)) [] ''Ann'' example_world)
     = Inr TIMEOUT_MESSAGE"
  using get_ai_response_never_raises
          [of "example_env (CreateRaises APITimeoutError)" "[]" "''Ann''" example_world]
  by (auto simp: example_env_def)

section \<open>Frame lemmas\<close>

lemma same_store_refl [simp]: "same_store s s"
  by (simp add: same_store_def)

lemma same_store_trans: "same_store s s1 \<Longrightarrow> same_store s1 s2 \<Longrightarrow> same_store s s2"
  by (simp add: same_store_def)

lemma tg_call_same: "tg_call E ev s = (r, s1) \<Longrightarrow> same_store s s1"
  by (auto simp: tg_call_def Let_def same_store_def split: tg_outcome.splits)

lemma get_summary_same: "get_summary E c s = (r, s1) \<Longrightarrow> same_store s s1"
  by (auto simp: get_summary_def sql_call_def same_store_def split: sql_outcome.splits)

lemma get_history_from_db_same: "get_history_from_db E c l s = (r, s1) \<Longrightarrow> same_store s s1"
  by (auto simp: get_history_from_db_def sql_call_def Let_def same_store_def split: sql_outcome.splits)

lemma get_ai_response_same: "get_ai_response E m n s = (r, s1) \<Longrightarrow> same_store s s1"
  by (auto simp: get_ai_response_def create_def first_content_def Let_def same_store_def
           split: if_splits create_outcome.splits list.splits option.splits py_exn.splits)

lemma send_parts_same: "same_store s (send_parts E c ps s)"
proof (induction ps arbitrary: s)
  case Nil
  show ?case by simp
next
  case (Cons p ps)
  obtain r s1 where c: "tg_call E (ReplyText c p) s = (r, s1)" by force
  with tg_call_same [OF c] Cons.IH [of s1] show ?case
    by (cases r) (auto intro: same_store_trans)
qed

lemma tg_call_snd_same: "same_store s (snd (tg_call E ev s))"
  by (rule tg_call_same [of E ev s "fst (tg_call E ev s)"]) simp

lemma tg_call_snd_fields [simp]:
  "REQUEST_QUEUE (snd (tg_call E ev s)) = REQUEST_QUEUE s"
  "conversations (snd (tg_call E ev s)) = conversations s"
  "long_term_memory (snd (tg_call E ev s)) = long_term_memory s"
  using tg_call_snd_same [of s E ev] by (simp_all add: same_store_def)

lemma send_as_new_same: "send_as_new E u t s = (r, s1) \<Longrightarrow> same_store s s1"
  by (auto simp: send_as_new_def send_parts_same tg_call_snd_same split: if_splits)

lemma send_final_response_same: "send_final_response E u t ph s = (r, s1) \<Longrightarrow> same_store s s1"
  by (auto simp: send_final_response_def Let_def
           split: option.splits prod.splits sum.splits py_exn.splits if_splits
           dest!: tg_call_same send_as_new_same intro: same_store_trans)

lemmas io_same = tg_call_same get_summary_same get_history_from_db_same
  get_ai_response_same send_final_response_same

lemma add_message_to_db_queue [simp]: "REQUEST_QUEUE (add_message_to_db E c r t s) = REQUEST_QUEUE s"
  by (auto simp: add_message_to_db_def sql_call_def split: sql_outcome.splits)

lemma update_summary_queue [simp]: "REQUEST_QUEUE (update_summary E c t s) = REQUEST_QUEUE s"
  by (auto simp: update_summary_def sql_call_def split: sql_outcome.splits)

lemma process_chat_job_queue:
  "\<exists>extra. REQUEST_QUEUE (snd (process_chat_job E upd ctx user_text ph s)) = REQUEST_QUEUE s @ extra"
  by (auto simp: process_chat_job_def Let_def and_then_def consolidate_memory_def queue_put_def
        same_store_def
      split: prod.splits sum.splits if_splits dest!: io_same)

lemma process_scene_gen_job_queue:
  "REQUEST_QUEUE (snd (process_scene_gen_job E upd ctx prompt s)) = REQUEST_QUEUE s"
  by (auto simp: process_scene_gen_job_def Let_def and_then_def set_generated_scene_def same_store_def
      split: prod.splits sum.splits if_splits dest!: io_same)

lemma process_persona_gen_job_queue:
  "REQUEST_QUEUE (snd (process_persona_gen_job E upd ctx prompt s)) = REQUEST_QUEUE s"
  by (auto simp: process_persona_gen_job_def Let_def and_then_def set_generated_persona_def same_store_def
      split: prod.splits sum.splits if_splits list.splits dest!: io_same)

lemma process_memory_job_queue:
  "REQUEST_QUEUE (snd (process_memory_job E chat_id ctx s)) = REQUEST_QUEUE s"
  by (auto simp: process_memory_job_def Let_def and_then_def same_store_def
      split: prod.splits sum.splits if_splits dest!: io_same)

lemma dispatch_queue:
  "\<exists>extra. REQUEST_QUEUE (snd (dispatch E j s)) = REQUEST_QUEUE s @ extra"
  using process_chat_job_queue
  by (cases j) (simp_all add: dispatch_def process_scene_gen_job_queue process_persona_gen_job_queue process_memory_job_queue)

section \<open>The queue behind the job being handled\<close>

lemma task_done_queue: "REQUEST_QUEUE (snd (task_done s)) = REQUEST_QUEUE s"
  by (simp add: task_done_def)

lemma ai_worker_iteration_takes_head:
  assumes "REQUEST_QUEUE s = j # q"
  shows "\<exists>s' extra. ai_worker_iteration E s = Some (j, s') \<and> REQUEST_QUEUE s' = q @ extra"
proof -
  let ?s1 = "s\<lparr>REQUEST_QUEUE := q\<rparr>"
  obtain r s2 where d: "dispatch E j ?s1 = (r, s2)" by force
  from dispatch_queue [of E j ?s1] d obtain extra where q2: "REQUEST_QUEUE s2 = q @ extra"
    by auto
  have g: "queue_get s = Some (j, ?s1)" using assms by (simp add: queue_get_def)
  show ?thesis
  proof (cases r)
    case (Inl e)
    with d g q2 show ?thesis
      by (auto simp: ai_worker_iteration_def task_done_queue)
  next
    case (Inr u)
    obtain r' s3 where t: "task_done s2 = (r', s3)" by force
    with task_done_queue [of s2] have q3: "REQUEST_QUEUE s3 = q @ extra" using q2 by simp
    from d g Inr t q3 show ?thesis
      by (cases r') (auto simp: ai_worker_iteration_def task_done_queue)
  qed
qed

lemma ai_worker_iteration_None: "ai_worker_iteration E s = None \<longleftrightarrow> REQUEST_QUEUE s = []"
proof (cases "REQUEST_QUEUE s")
  case Nil
  then show ?thesis by (simp add: ai_worker_iteration_def queue_get_def)
next
  case (Cons j q)
  with ai_worker_iteration_takes_head [OF Cons, of E] show ?thesis by auto
qed

lemma ai_worker_trace:
  "n \<le> length (REQUEST_QUEUE s) \<Longrightarrow> fst (ai_worker n E s) = take n (REQUEST_QUEUE s)"
proof (induction n arbitrary: s)
  case 0
  show ?case by simp
next
  case (Suc n)
  then obtain j q where jq: "REQUEST_QUEUE s = j # q" by (cases "REQUEST_QUEUE s") auto
  from ai_worker_iteration_takes_head [OF jq, of E] obtain s' extra
    where it: "ai_worker_iteration E s = Some (j, s')" and q': "REQUEST_QUEUE s' = q @ extra"
    by blast
  from Suc.prems jq q' have "n \<le> length (REQUEST_QUEUE s')" by simp
  from Suc.IH [OF this] q' Suc.prems jq have "fst (ai_worker n E s') = take n q" by simp
  with it jq show ?case by (cases "ai_worker n E s'") simp
qed

lemma fold_queue_put: "REQUEST_QUEUE (fold queue_put js s) = REQUEST_QUEUE s @ js"
  by (induction js arbitrary: s) (simp_all add: queue_put_def)

section \<open>Splitting a long text\<close>

lemma concat_chunks:
  "concat (map (\<lambda>k. take L (drop (k * L) xs)) [0..<m]) = take (m * L) xs"
proof (induction m)
  case 0
  show ?case by simp
next
  case (Suc m)
  have "take (m * L + L) xs = take (m * L) xs @ take L (drop (m * L) xs)"
    by (rule take_add)
  with Suc show ?case by (simp add: add.commute)
qed

lemma chunk_count_covers: "0 < L \<Longrightarrow> (n::nat) \<le> ((n + L - 1) div L) * L"
proof -
  assume L: "0 < L"
  have "n + L - 1 = ((n + L - 1) div L) * L + (n + L - 1) mod L" by simp
  moreover have "(n + L - 1) mod L < L" using L by simp
  ultimately show ?thesis by linarith
qed

lemma parts_eq: "parts L t = map (\<lambda>k. take L (drop (k * L) t)) [0..<(length t + L - 1) div L]"
  by (simp add: parts_def range_step_def comp_def)

lemma concat_parts: "0 < L \<Longrightarrow> concat (parts L t) = t"
  using chunk_count_covers [of L "length t"] by (simp add: parts_eq concat_chunks)

lemma length_parts: "length (parts L t) = (length t + L - 1) div L"
  by (simp add: parts_eq)

lemma parts_bounded: "p \<in> set (parts L t) \<Longrightarrow> length p \<le> L"
  by (auto simp: parts_eq)

lemma parts_nth:
  "i < length (parts L t) \<Longrightarrow> parts L t ! i = take L (drop (i * L) t)"
  by (simp add: parts_eq)

lemma send_parts_accepted:
  "\<forall>n p. tg E n (ReplyText c p) = TgOk \<Longrightarrow>
   outbox (send_parts E c ps s) = outbox s @ map (ReplyText c) ps"
  by (induction ps arbitrary: s) (simp_all add: tg_call_def)

lemma send_parts_prefix:
  "\<exists>k \<le> length ps. outbox (send_parts E c ps s) = outbox s @ map (ReplyText c) (take k ps)"
proof (induction ps arbitrary: s)
  case Nil
  show ?case by simp
next
  case (Cons p ps)
  show ?case
  proof (cases "tg E (n_tg s) (ReplyText c p)")
    case TgOk
    let ?s1 = "s\<lparr>n_tg := Suc (n_tg s), outbox := outbox s @ [ReplyText c p]\<rparr>"
    from Cons.IH [of ?s1] obtain k where k: "k \<le> length ps"
      "outbox (send_parts E c ps ?s1) = outbox ?s1 @ map (ReplyText c) (take k ps)" by blast
    with TgOk have "Suc k \<le> length (p # ps) \<and>
       outbox (send_parts E c (p # ps) s) = outbox s @ map (ReplyText c) (take (Suc k) (p # ps))"
      by (simp add: tg_call_def)
    then show ?thesis by blast
  next
    case (TgRaises e)
    then have "outbox (send_parts E c (p # ps) s) = outbox s @ map (ReplyText c) (take 0 (p # ps))"
      by (simp add: tg_call_def)
    then show ?thesis by blast
  qed
qed

text \<open>C9, as the code has it. A text longer than the maximum message length that is posted
  as new messages (no placeholder was given, or Telegram rejected the edit of the
  placeholder with a \<^verbatim>\<open>BadRequest\<close> other than "Message is not modified"), every
  part being accepted by Telegram, goes out as the parts of the list comprehension, in
  order: part \<open>i\<close> is the slice of the text from \<open>i * L\<close> of at most \<open>L\<close> characters, the
  parts concatenated are the text, and a text of 10000 characters gives 3 parts.\<close>

theorem send_final_response_splits:
  assumes long: "TELEGRAM_MAX_MESSAGE_LENGTH < length text"
    and new: "ph = None \<or> (\<exists>p e. ph = Some p \<and> tg E (n_tg s) (EditText p text) = TgRaises (BadRequest e)
                  \<and> \<not> str_contains NOT_MODIFIED e)"
    and accepted: "\<forall>n p. tg E n (ReplyText (effective_chat upd) p) = TgOk"
  shows "outbox (snd (send_final_response E upd text ph s))
           = outbox s @ map (ReplyText (effective_chat upd)) (parts TELEGRAM_MAX_MESSAGE_LENGTH text)
         \<and> concat (parts TELEGRAM_MAX_MESSAGE_LENGTH text) = text
         \<and> (\<forall>p \<in> set (parts TELEGRAM_MAX_MESSAGE_LENGTH text). length p \<le> TELEGRAM_MAX_MESSAGE_LENGTH)
         \<and> (\<forall>i < length (parts TELEGRAM_MAX_MESSAGE_LENGTH text).
               parts TELEGRAM_MAX_MESSAGE_LENGTH text ! i
                 = take TELEGRAM_MAX_MESSAGE_LENGTH (drop (i * TELEGRAM_MAX_MESSAGE_LENGTH) text))
         \<and> (length text = 10000 \<longrightarrow> length (parts TELEGRAM_MAX_MESSAGE_LENGTH text) = 3)"
proof -
  let ?L = TELEGRAM_MAX_MESSAGE_LENGTH
  let ?c = "effective_chat upd"
  from long have ne: "text \<noteq> []" by auto
  have new_msgs: "outbox (snd (send_as_new E upd text s')) = outbox s' @ map (ReplyText ?c) (parts ?L text)"
    for s'
    using long send_parts_accepted [OF accepted] by (simp add: send_as_new_def)
  have "outbox (snd (send_final_response E upd text ph s)) = outbox s @ map (ReplyText ?c) (parts ?L text)"
    using new
  proof
    assume "ph = None"
    with ne new_msgs [of s] show ?thesis by (simp add: send_final_response_def)
  next
    assume "\<exists>p e. ph = Some p \<and> tg E (n_tg s) (EditText p text) = TgRaises (BadRequest e)
                  \<and> \<not> str_contains NOT_MODIFIED e"
    then obtain p e where "ph = Some p" "tg E (n_tg s) (EditText p text) = TgRaises (BadRequest e)"
      "\<not> str_contains NOT_MODIFIED e" by blast
    with ne new_msgs [of "s\<lparr>n_tg := Suc (n_tg s)\<rparr>"] show ?thesis
      by (simp add: send_final_response_def tg_call_def)
  qed
  moreover have "concat (parts ?L text) = text"
    by (rule concat_parts) (simp add: TELEGRAM_MAX_MESSAGE_LENGTH_def)
  moreover have "length text = 10000 \<longrightarrow> length (parts ?L text) = 3"
    by (simp add: length_parts TELEGRAM_MAX_MESSAGE_LENGTH_def)
  ultimately show ?thesis
    by (simp add: parts_bounded parts_nth)
qed

theorem send_final_response_splits_witness:
  "outbox (snd (send_final_response (example_env (Completion [])) \<lparr>effective_chat = 7, effective_user = 7\<rparr>
                 long_text None example_world))
     = [ReplyText 7 (replicate 4096 (CHR ''a'')), ReplyText 7 (replicate 4096 (CHR ''a'')),
        ReplyText 7 (replicate 1808 (CHR ''a''))]"
proof -
  have l: "TELEGRAM_MAX_MESSAGE_LENGTH < length long_text"
    by (simp add: long_text_def TELEGRAM_MAX_MESSAGE_LENGTH_def)
  have p: "parts TELEGRAM_MAX_MESSAGE_LENGTH long_text
             = [replicate 4096 (CHR ''a''), replicate 4096 (CHR ''a''), replicate 1808 (CHR ''a'')]"
  proof -
    have u: "[0..<3] = [0, 1, 2::nat]" by (simp add: upt_rec)
    show ?thesis
      by (simp add: parts_eq long_text_def TELEGRAM_MAX_MESSAGE_LENGTH_def u)
  qed
  from send_final_response_splits [OF l, of None "example_env (Completion [])" example_world
          "\<lparr>effective_chat = 7, effective_user = 7\<rparr>"]
  show ?thesis by (simp add: p example_env_def example_world_def)
qed

text \<open>C9, as stated, fails when a placeholder is given and Telegram accepts the edit: the
  whole text, longer than the maximum, goes out in that one edit and nothing is split.
  (Telegram counts the characters left after it has parsed the markup, so it accepts such
  a text.)\<close>

theorem send_final_response_edit_is_not_split:
  "TELEGRAM_MAX_MESSAGE_LENGTH < length marked_up_text \<and>
   outbox (snd (send_final_response (example_env (Completion [])) \<lparr>effective_chat = 7, effective_user = 7\<rparr>
                  marked_up_text (Some 1) example_world))
     = [EditText 1 marked_up_text]"
  by (simp add: send_final_response_def tg_call_def example_env_def example_world_def
        marked_up_text_def TELEGRAM_MAX_MESSAGE_LENGTH_def)

section \<open>The chat handler\<close>

lemma tg_call_state:
  "tg_call E ev s = (r, s1) \<Longrightarrow>
   s1 = s\<lparr>n_tg := Suc (n_tg s), outbox := outbox s @ (if tg E (n_tg s) ev = TgOk then [ev] else [])\<rparr>
   \<and> r = (case tg E (n_tg s) ev of TgOk \<Rightarrow> Inr () | TgRaises e \<Rightarrow> Inl e)"
  by (auto simp: tg_call_def Let_def split: tg_outcome.splits)

lemma get_summary_state:
  "get_summary E c s = (r, s1) \<Longrightarrow>
   s1 = s\<lparr>n_sql := Suc (n_sql s)\<rparr> \<and>
   r = (if sql E (n_sql s) = SqlOk then long_term_memory s c else None)"
  by (auto simp: get_summary_def sql_call_def split: sql_outcome.splits)

lemma get_history_from_db_state:
  "get_history_from_db E c l s = (r, s1) \<Longrightarrow> s1 = s\<lparr>n_sql := Suc (n_sql s)\<rparr>"
  by (auto simp: get_history_from_db_def sql_call_def Let_def split: sql_outcome.splits)

lemma get_history_from_db_total:
  "sql E (n_sql s) = SqlOk \<Longrightarrow>
   snd (fst (get_history_from_db E c l s)) = length (rows_of c s)"
  by (simp add: get_history_from_db_def sql_call_def Let_def rows_of_def)

lemma get_ai_response_state:
  "get_ai_response E m n s = (r, s1) \<Longrightarrow>
   s1 = s\<lparr>n_llm := (if lm_studio_client E then Suc (n_llm s) else n_llm s)\<rparr>"
  by (auto simp: get_ai_response_def create_def first_content_def Let_def
           split: if_splits create_outcome.splits list.splits option.splits py_exn.splits)

lemma send_parts_counters:
  "n_llm (send_parts E c ps s) = n_llm s \<and> n_sql (send_parts E c ps s) = n_sql s"
  by (induction ps arbitrary: s) (auto simp: tg_call_def Let_def split: tg_outcome.splits)

lemma send_as_new_counters:
  "send_as_new E u t s = (r, s1) \<Longrightarrow> n_llm s1 = n_llm s \<and> n_sql s1 = n_sql s"
  by (auto simp: send_as_new_def send_parts_counters tg_call_def Let_def
           split: if_splits tg_outcome.splits)

lemma send_final_response_counters:
  "send_final_response E u t ph s = (r, s1) \<Longrightarrow> n_llm s1 = n_llm s \<and> n_sql s1 = n_sql s"
  by (auto simp: send_final_response_def Let_def
           split: option.splits prod.splits sum.splits py_exn.splits if_splits
           dest!: tg_call_state send_as_new_counters)

lemma send_parts_all_accepted:
  "\<forall>n ev. tg E n ev = TgOk \<Longrightarrow>
   outbox (send_parts E c ps s) = outbox s @ map (ReplyText c) ps"
  by (induction ps arbitrary: s) (simp_all add: tg_call_def)

lemma send_final_response_accepted:
  "\<forall>n ev. tg E n ev = TgOk \<Longrightarrow> send_final_response E upd text ph s = (r, s1) \<Longrightarrow>
   r = Inr () \<and> outbox s1 = outbox s @ delivery upd text ph"
  by (auto simp: send_final_response_def delivery_def send_as_new_def tg_call_def Let_def
        send_parts_all_accepted split: option.splits if_splits)

text \<open>The persistence block of \<^verbatim>\<open>process_chat_job\<close>, as a function of the reply, the
  count read before the request and the state after delivery.\<close>

lemma process_chat_job_decompose:
  obtains (raised) e s1 where
      "process_chat_job E upd ctx user_text ph s = (Inl e, s1)" "same_store s s1"
      "\<not> (\<forall>n ev. tg E n ev = TgOk)"
  | (delivered) t total s5 where
      "same_store s s5"
      "n_sql s5 = n_sql s + (if is_memory_enabled ctx s then 2 else 1)"
      "\<exists>m n s3. n_llm s3 = n_llm s \<and> fst (get_ai_response E m n s3) = Inr t"
      "sql E (n_sql s) = SqlOk \<longrightarrow> total = length (rows_of (effective_chat upd) s)"
      "(\<forall>n ev. tg E n ev = TgOk) \<longrightarrow>
          outbox s5 = outbox s @ SendChatAction (effective_chat upd) # delivery upd t ph"
      "process_chat_job E upd ctx user_text ph s =
         (if looks_successful t
          then let s6 = add_message_to_db E (effective_chat upd) ''user'' user_text s5;
                   s7 = add_message_to_db E (effective_chat upd) ''assistant'' t s6
               in if is_memory_enabled ctx s \<and> (total + 2) mod MEMORY_CONSOLIDATION_INTERVAL = 0
                       \<and> total > 0
                  then (Inr (), consolidate_memory ctx (effective_chat upd) s7)
                  else (Inr (), s7)
          else (Inr (), s5))"
proof -
  let ?chat = "effective_chat upd"
  obtain r1 s1 where c1: "tg_call E (SendChatAction ?chat) s = (r1, s1)" by force
  note st1 = tg_call_state [OF c1]
  show thesis
  proof (cases r1)
    case (Inl e)
    with c1 have "process_chat_job E upd ctx user_text ph s = (Inl e, s1)"
      by (simp add: process_chat_job_def)
    moreover have "tg E (n_tg s) (SendChatAction ?chat) \<noteq> TgOk"
      using st1 Inl by (auto split: tg_outcome.splits)
    then have "\<not> (\<forall>n ev. tg E n ev = TgOk)" by blast
    ultimately show thesis using tg_call_same [OF c1] by (blast intro: raised)
  next
    case (Inr u)
    obtain h total s2 where c2: "get_history_from_db E ?chat MAX_HISTORY_MESSAGES s1 = ((h, total), s2)"
      by (metis surj_pair)
    note st2 = get_history_from_db_state [OF c2]
    define enabled where "enabled = is_memory_enabled ctx s"
    have en2: "is_memory_enabled ctx s2 = enabled"
      using st1 st2 by (simp add: enabled_def is_memory_enabled_def)
    obtain summary s3 where c3: "(if enabled then get_summary E ?chat s2 else (None, s2)) = (summary, s3)"
      by force
    have st3: "s3 = s2\<lparr>n_sql := (if enabled then Suc (n_sql s2) else n_sql s2)\<rparr>"
      using c3 by (auto split: if_splits dest!: get_summary_state)
    define msgs where "msgs = with_user_message (get_system_prompt ctx s3) user_text (with_memory summary h)"
    obtain r4 s4 where c4: "get_ai_response E msgs (get_user_display_name ctx s3) s3 = (r4, s4)"
      by force
    from get_ai_response_returns [of E msgs "get_user_display_name ctx s3" s3] c4
    obtain t where r4: "r4 = Inr t" by auto
    note st4 = get_ai_response_state [OF c4]
    obtain r5 s5 where c5: "send_final_response E upd t ph s4 = (r5, s5)" by force
    have same4: "same_store s s4"
      using st1 st2 st3 st4 by (simp add: same_store_def)
    have same5: "same_store s s5"
      using same4 send_final_response_same [OF c5] by (rule same_store_trans)
    have body: "process_chat_job E upd ctx user_text ph s =
       and_then (r5, s5) (\<lambda>_ s5.
         if looks_successful t
          then let s6 = add_message_to_db E ?chat ''user'' user_text s5;
                   s7 = add_message_to_db E ?chat ''assistant'' t s6
               in if is_memory_enabled ctx s2 \<and> (total + 2) mod MEMORY_CONSOLIDATION_INTERVAL = 0
                       \<and> total > 0
                  then (Inr (), consolidate_memory ctx ?chat s7)
                  else (Inr (), s7)
          else (Inr (), s5))"
      using c1 Inr c2 c3 c4 r4 c5
      by (simp add: process_chat_job_def en2 msgs_def [symmetric] Let_def)
    show thesis
    proof (cases r5)
      case (Inl e)
      with body have "process_chat_job E upd ctx user_text ph s = (Inl e, s5)" by simp
      moreover have "\<not> (\<forall>n ev. tg E n ev = TgOk)"
        using send_final_response_accepted [OF _ c5] Inl by auto
      ultimately show thesis using same5 by (blast intro: raised)
    next
      case (Inr u5)
      have sq: "n_sql s5 = n_sql s + (if is_memory_enabled ctx s then 2 else 1)"
        using send_final_response_counters [OF c5] st1 st2 st3 st4 by (simp add: enabled_def)
      have l3: "n_llm s3 = n_llm s" using st1 st2 st3 by simp
      have ex: "\<exists>m n s3. n_llm s3 = n_llm s \<and> fst (get_ai_response E m n s3) = Inr t"
        using l3 c4 r4 by (metis fst_conv)
      have tot: "sql E (n_sql s) = SqlOk \<longrightarrow> total = length (rows_of ?chat s)"
        using get_history_from_db_total [of E s1 ?chat MAX_HISTORY_MESSAGES] c2 st1
        by (simp add: rows_of_def)
      have ob: "(\<forall>n ev. tg E n ev = TgOk) \<longrightarrow> outbox s5 = outbox s @ SendChatAction ?chat # delivery upd t ph"
      proof
        assume ok: "\<forall>n ev. tg E n ev = TgOk"
        from send_final_response_accepted [OF ok c5] st1 st2 st3 st4 ok
        show "outbox s5 = outbox s @ SendChatAction ?chat # delivery upd t ph" by simp
      qed
      from body Inr have "process_chat_job E upd ctx user_text ph s =
         (if looks_successful t
          then let s6 = add_message_to_db E ?chat ''user'' user_text s5;
                   s7 = add_message_to_db E ?chat ''assistant'' t s6
               in if is_memory_enabled ctx s \<and> (total + 2) mod MEMORY_CONSOLIDATION_INTERVAL = 0
                       \<and> total > 0
                  then (Inr (), consolidate_memory ctx ?chat s7)
                  else (Inr (), s7)
          else (Inr (), s5))"
        unfolding en2 enabled_def by simp
      with same5 sq ex tot ob show thesis by (rule delivered)
    qed
  qed
qed

lemma reply_completion:
  "lm_studio_client E \<Longrightarrow> \<forall>m st. llm E (n_llm s) m st = Completion (Some c # cs) \<Longrightarrow>
   n_llm s3 = n_llm s \<Longrightarrow> fst (get_ai_response E m n s3) = Inr (strip c)"
  by (simp add: get_ai_response_completion [of E s3 m n c cs])

lemma reply_fault:
  "lm_studio_client E \<Longrightarrow> \<forall>m st. llm E (n_llm s) m st = CreateRaises e \<Longrightarrow>
   n_llm s3 = n_llm s \<Longrightarrow> fst (get_ai_response E m n s3) = Inr (fault_text e)"
  by (simp add: get_ai_response_fault [of E s3 m n e])

lemma process_chat_job_unsuccessful:
  assumes reply: "\<And>m n s3. n_llm s3 = n_llm s \<Longrightarrow> fst (get_ai_response E m n s3) = Inr t"
    and bad: "\<not> looks_successful t"
  shows "same_store s (snd (process_chat_job E upd ctx user_text ph s))"
    and "(\<forall>n ev. tg E n ev = TgOk) \<Longrightarrow>
         fst (process_chat_job E upd ctx user_text ph s) = Inr () \<and>
         outbox (snd (process_chat_job E upd ctx user_text ph s))
           = outbox s @ SendChatAction (effective_chat upd) # delivery upd t ph"
proof -
  show "same_store s (snd (process_chat_job E upd ctx user_text ph s))"
  proof (cases rule: process_chat_job_decompose [of E upd ctx user_text ph s])
    case (raised e s1)
    then show ?thesis by simp
  next
    case (delivered t' total s5)
    from delivered(3) reply have "t' = t" by auto
    with delivered(1,6) bad show ?thesis by simp
  qed
  assume ok: "\<forall>n ev. tg E n ev = TgOk"
  show "fst (process_chat_job E upd ctx user_text ph s) = Inr () \<and>
         outbox (snd (process_chat_job E upd ctx user_text ph s))
           = outbox s @ SendChatAction (effective_chat upd) # delivery upd t ph"
  proof (cases rule: process_chat_job_decompose [of E upd ctx user_text ph s])
    case (raised e s1)
    with ok show ?thesis by simp
  next
    case (delivered t' total s5)
    from delivered(3) reply have "t' = t" by auto
    with delivered(5,6) bad ok show ?thesis by simp
  qed
qed

lemma add_message_to_db_ok:
  "sql E (n_sql s) = SqlOk \<Longrightarrow>
   add_message_to_db E c r t s = s\<lparr>n_sql := Suc (n_sql s), conversations := conversations s @ [(c, r, t)]\<rparr>"
  by (simp add: add_message_to_db_def sql_call_def)

lemma process_chat_job_persists:
  assumes tgok: "\<forall>n ev. tg E n ev = TgOk" and sqlok: "\<forall>n. sql E n = SqlOk"
    and reply: "\<And>m n s3. n_llm s3 = n_llm s \<Longrightarrow> fst (get_ai_response E m n s3) = Inr t"
    and good: "looks_successful t"
  shows "fst (process_chat_job E upd ctx user_text ph s) = Inr () \<and>
     conversations (snd (process_chat_job E upd ctx user_text ph s)) = conversations s @
        [(effective_chat upd, ''user'', user_text), (effective_chat upd, ''assistant'', t)] \<and>
     REQUEST_QUEUE (snd (process_chat_job E upd ctx user_text ph s)) = REQUEST_QUEUE s @
        (if is_memory_enabled ctx s \<and>
            (length (rows_of (effective_chat upd) s) + 2) mod MEMORY_CONSOLIDATION_INTERVAL = 0
         then [ConsolidateMemory (effective_chat upd) ctx] else []) \<and>
     long_term_memory (snd (process_chat_job E upd ctx user_text ph s)) = long_term_memory s \<and>
     outbox (snd (process_chat_job E upd ctx user_text ph s)) = outbox s @ SendChatAction (effective_chat upd) # delivery upd t ph"
proof -
  let ?chat = "effective_chat upd"
  let ?total = "length (rows_of ?chat s)"
  have pos: "(?total + 2) mod MEMORY_CONSOLIDATION_INTERVAL = 0 \<Longrightarrow> 0 < ?total"
    by (rule ccontr) (simp add: MEMORY_CONSOLIDATION_INTERVAL_def)
  show ?thesis
  proof (cases rule: process_chat_job_decompose [of E upd ctx user_text ph s])
    case (raised e s1)
    with tgok show ?thesis by simp
  next
    case (delivered t' total s5)
    from delivered(3) reply have t: "t' = t" by auto
    from delivered(4) sqlok have tot: "total = ?total" by simp
    from delivered(5) tgok have ob: "outbox s5 = outbox s @ SendChatAction ?chat # delivery upd t' ph"
      by simp
    from delivered(1) have st: "conversations s5 = conversations s" "REQUEST_QUEUE s5 = REQUEST_QUEUE s"
      "long_term_memory s5 = long_term_memory s" by (simp_all add: same_store_def)
    show ?thesis
      unfolding delivered(6)
      using good pos st ob sqlok
      by (simp add: t tot add_message_to_db_ok consolidate_memory_def queue_put_def Let_def)
  qed
qed

lemma delivery_nonempty:
  "t \<noteq> [] \<Longrightarrow> delivery upd t ph =
     (case ph of
        Some p \<Rightarrow> [EditText p t]
      | None \<Rightarrow> if length t \<le> TELEGRAM_MAX_MESSAGE_LENGTH then [ReplyText (effective_chat upd) t]
                else map (ReplyText (effective_chat upd)) (parts TELEGRAM_MAX_MESSAGE_LENGTH t))"
  by (simp add: delivery_def)

lemma str_contains_nonempty: "str_contains sub t \<Longrightarrow> sub \<noteq> [] \<Longrightarrow> t \<noteq> []"
  by (cases t) auto

text \<open>C10. When the backend answers a chat job with a completion whose text, stripped,
  contains "error" or "timed out", the handler writes no message of the turn (the
  conversation table, the stored summaries and the queue are as before, so no
  consolidation is queued either), whatever Telegram and the database do; and when
  Telegram accepts every call, the reply is delivered as any other: after the typing
  action, the edit of the placeholder, or the reply as one new message or as its
  parts.\<close>

theorem unsuccessful_looking_reply_not_persisted:
  assumes client: "lm_studio_client E"
    and answer: "\<forall>m st. llm E (n_llm s) m st = Completion (Some c # cs)"
    and looks: "str_contains ''error'' (strip c) \<or> str_contains ''timed out'' (strip c)"
  shows "conversations (snd (process_chat_job E upd ctx user_text ph s)) = conversations s \<and>
         long_term_memory (snd (process_chat_job E upd ctx user_text ph s)) = long_term_memory s \<and>
         REQUEST_QUEUE (snd (process_chat_job E upd ctx user_text ph s)) = REQUEST_QUEUE s \<and>
         ((\<forall>n ev. tg E n ev = TgOk) \<longrightarrow>
            fst (process_chat_job E upd ctx user_text ph s) = Inr () \<and>
            outbox (snd (process_chat_job E upd ctx user_text ph s))
              = outbox s @ SendChatAction (effective_chat upd) #
                  (case ph of
                     Some p \<Rightarrow> [EditText p (strip c)]
                   | None \<Rightarrow>
                       if length (strip c) \<le> TELEGRAM_MAX_MESSAGE_LENGTH
                       then [ReplyText (effective_chat upd) (strip c)]
                       else map (ReplyText (effective_chat upd))
                              (parts TELEGRAM_MAX_MESSAGE_LENGTH (strip c))))"
proof -
  from looks have bad: "\<not> looks_successful (strip c)" by (auto simp: looks_successful_def)
  from looks have ne: "strip c \<noteq> []" by (auto dest: str_contains_nonempty)
  note r = reply_completion [OF client answer]
  from process_chat_job_unsuccessful(1) [where s = s and E = E and t = "strip c", OF r bad]
  have "same_store s (snd (process_chat_job E upd ctx user_text ph s))" by simp
  moreover have "(\<forall>n ev. tg E n ev = TgOk) \<longrightarrow>
            fst (process_chat_job E upd ctx user_text ph s) = Inr () \<and>
            outbox (snd (process_chat_job E upd ctx user_text ph s))
              = outbox s @ SendChatAction (effective_chat upd) # delivery upd (strip c) ph"
    using process_chat_job_unsuccessful(2) [where s = s and E = E and t = "strip c", OF r bad]
    by blast
  ultimately show ?thesis
    by (simp add: same_store_def delivery_nonempty [OF ne])
qed

lemma strip_plain [simp]: "strip ''ok'' = ''ok''" "strip ''There was an error'' = ''There was an error''"
  by (simp_all add: strip_def is_space_def)

theorem unsuccessful_looking_reply_not_persisted_witness:
  "conversations (snd (process_chat_job (example_env (Completion [Some ''There was an error'']))
                   example_update example_context ''hello'' None example_world)) = [] \<and>
   outbox (snd (process_chat_job (example_env (Completion [Some ''There was an error'']))
                   example_update example_context ''hello'' None example_world))
     = [SendChatAction 7, ReplyText 7 ''There was an error'']"
proof -
  let ?E = "example_env (Completion [Some ''There was an error''])"
  have 1: "lm_studio_client ?E" and 2: "\<forall>m st. llm ?E (n_llm example_world) m st = Completion (Some ''There was an error'' # [])"
    and 4: "\<forall>n ev. tg ?E n ev = TgOk"
    by (simp_all add: example_env_def)
  have 3: "str_contains ''error'' (strip ''There was an error'') \<or> str_contains ''timed out'' (strip ''There was an error'')"
    by (simp add: startswith_def)
  from unsuccessful_looking_reply_not_persisted [OF 1 2 3, where upd = example_update and ctx = example_context
            and user_text = "''hello''" and ph = None] 4
  show ?thesis
    by (simp add: example_world_def example_update_def TELEGRAM_MAX_MESSAGE_LENGTH_def)
qed

text \<open>C5 fails on the code. When the request raises \<^verbatim>\<open>APIConnectionError\<close>, the fixed
  connection message is delivered, but it contains neither "error" nor "timed out", so
  the success test of the handler passes and both the user message and the message text
  are stored as a turn of the conversation.\<close>

theorem connection_fault_is_persisted:
  "conversations (snd (process_chat_job (example_env (CreateRaises APIConnectionError)) example_update
                          example_context ''hello'' None example_world))
     = [(7, ''user'', ''hello''), (7, ''assistant'', CONNECTION_MESSAGE)] \<and>
   outbox (snd (process_chat_job (example_env (CreateRaises APIConnectionError)) example_update
                          example_context ''hello'' None example_world))
     = [SendChatAction 7, ReplyText 7 CONNECTION_MESSAGE]"
proof -
  let ?E = "example_env (CreateRaises APIConnectionError)"
  have 1: "\<forall>n ev. tg ?E n ev = TgOk" and 2: "\<forall>n. sql ?E n = SqlOk" and 3: "lm_studio_client ?E"
    and 4: "\<forall>m st. llm ?E (n_llm example_world) m st = CreateRaises APIConnectionError"
    by (simp_all add: example_env_def)
  have 5: "looks_successful (fault_text APIConnectionError)"
    by (simp add: looks_successful_def fault_text_def CONNECTION_MESSAGE_def startswith_def)
  have 6: "fault_text APIConnectionError = CONNECTION_MESSAGE" by (simp add: fault_text_def)
  have 7: "delivery example_update CONNECTION_MESSAGE None = [ReplyText 7 CONNECTION_MESSAGE]"
    by (simp add: delivery_def CONNECTION_MESSAGE_def TELEGRAM_MAX_MESSAGE_LENGTH_def example_update_def)
  from process_chat_job_persists [OF 1 2 reply_fault [OF 3 4] 5,
          where upd = example_update and ctx = example_context and user_text = "''hello''"
            and ph = None]
  show ?thesis unfolding 6 7 by (simp add: example_world_def example_update_def)
qed

section \<open>The memory consolidation handler\<close>

lemma strip_id: "t \<noteq> [] \<Longrightarrow> \<not> is_space (hd t) \<Longrightarrow> \<not> is_space (last t) \<Longrightarrow> strip t = t"
proof -
  assume ne: "t \<noteq> []" and h: "\<not> is_space (hd t)" and l: "\<not> is_space (last t)"
  from ne h have 1: "dropWhile is_space t = t" by (cases t) auto
  from ne l have "\<not> is_space (hd (rev t))" by (simp add: hd_rev)
  with ne have 2: "dropWhile is_space (rev t) = rev t" by (cases "rev t") auto
  show ?thesis by (simp add: strip_def 1 2)
qed

lemma last_dropWhile: "dropWhile P xs \<noteq> [] \<Longrightarrow> last (dropWhile P xs) = last xs"
proof -
  assume ne: "dropWhile P xs \<noteq> []"
  have "xs = takeWhile P xs @ dropWhile P xs" by simp
  then have "last xs = last (takeWhile P xs @ dropWhile P xs)" by simp
  also have "\<dots> = last (dropWhile P xs)" using ne by (rule last_appendR)
  finally show ?thesis by simp
qed

lemma strip_ends:
  assumes "strip t \<noteq> []"
  shows "\<not> is_space (hd (strip t))" and "\<not> is_space (last (strip t))"
proof -
  let ?a = "dropWhile is_space t"
  let ?b = "dropWhile is_space (rev ?a)"
  from assms have b: "?b \<noteq> []" by (simp add: strip_def)
  have a: "?a \<noteq> []"
  proof
    assume "?a = []"
    then have "?b = []" by (simp only: rev.simps(1) dropWhile.simps(1))
    with b show False by contradiction
  qed
  from b have "\<not> is_space (hd ?b)" by (rule hd_dropWhile)
  then show "\<not> is_space (last (strip t))" using b by (simp add: strip_def last_rev)
  from b have "last ?b = last (rev ?a)" by (rule last_dropWhile)
  also have "\<dots> = hd ?a" using a by (simp add: last_rev)
  finally have "hd (strip t) = hd ?a" using b by (simp add: strip_def hd_rev)
  moreover from a have "\<not> is_space (hd ?a)" by (rule hd_dropWhile)
  ultimately show "\<not> is_space (hd (strip t))" by simp
qed

lemma strip_joined_first:
  "t \<noteq> [] \<Longrightarrow> \<not> is_space (hd t) \<Longrightarrow> \<not> is_space (last t) \<Longrightarrow>
   strip (joined_summary None t) = t"
  by (simp add: joined_summary_def strip_id)

lemma strip_joined_next:
  "old \<noteq> [] \<Longrightarrow> \<not> is_space (hd old) \<Longrightarrow> t \<noteq> [] \<Longrightarrow> \<not> is_space (last t) \<Longrightarrow>
   strip (joined_summary (Some old) t) = old @ nl2 @ t"
  by (simp add: joined_summary_def strip_id)

lemma process_memory_job_stores:
  assumes act: "tg E (n_tg s) (SendChatAction chat_id) = TgOk"
    and sqlok: "\<forall>n. sql E n = SqlOk"
    and hist: "rows_of chat_id s \<noteq> []"
    and reply: "\<And>m n s3. n_llm s3 = n_llm s \<Longrightarrow> fst (get_ai_response E m n s3) = Inr t"
    and ne: "t \<noteq> []"
  shows "long_term_memory (snd (process_memory_job E chat_id ctx s))
           = (long_term_memory s)(chat_id \<mapsto> strip (joined_summary (long_term_memory s chat_id) t)) \<and>
         conversations (snd (process_memory_job E chat_id ctx s)) = conversations s \<and>
         n_tg (snd (process_memory_job E chat_id ctx s)) = n_tg s + 2 \<and>
         n_llm (snd (process_memory_job E chat_id ctx s))
           = (if lm_studio_client E then Suc (n_llm s) else n_llm s) \<and>
         outbox (snd (process_memory_job E chat_id ctx s))
           = outbox s @ SendChatAction chat_id #
               (if tg E (Suc (n_tg s)) (SendMessage chat_id MEMORY_FORMED) = TgOk
                then [SendMessage chat_id MEMORY_FORMED] else [])"
proof -
  let ?s1 = "s\<lparr>n_tg := Suc (n_tg s), outbox := outbox s @ [SendChatAction chat_id]\<rparr>"
  let ?s2 = "?s1\<lparr>n_sql := Suc (n_sql s)\<rparr>"
  let ?h = "map (\<lambda>r. \<lparr>role = fst (snd r), content = snd (snd r)\<rparr>) (rows_of chat_id s)"
  let ?msgs = "?h @ [\<lparr>role = ''user'', content = CONSOLIDATION_PROMPT\<rparr>]"
  have c1: "tg_call E (SendChatAction chat_id) s = (Inr (), ?s1)"
    using act by (simp add: tg_call_def)
  have c2: "get_history_from_db E chat_id 0 ?s1 = ((?h, length (rows_of chat_id s)), ?s2)"
    using sqlok by (simp add: get_history_from_db_def sql_call_def rows_of_def Let_def)
  obtain r4 s4 where c4: "get_ai_response E ?msgs (get_user_display_name ctx ?s2) ?s2 = (r4, s4)"
    by force
  from reply [of ?s2 ?msgs "get_user_display_name ctx ?s2"] c4 have r4: "r4 = Inr t" by simp
  from get_ai_response_state [OF c4]
  have s4: "s4 = ?s2\<lparr>n_llm := (if lm_studio_client E then Suc (n_llm s) else n_llm s)\<rparr>" by simp
  from hist have hne: "?h \<noteq> []" by simp
  obtain old s5 where c5: "get_summary E chat_id s4 = (old, s5)" by force
  from get_summary_state [OF c5] sqlok s4
  have s5: "s5 = s4\<lparr>n_sql := Suc (n_sql s4)\<rparr>" and old: "old = long_term_memory s chat_id"
    by simp_all
  have body: "process_memory_job E chat_id ctx s =
     tg_call E (SendMessage chat_id MEMORY_FORMED)
       (update_summary E chat_id (strip (joined_summary old t)) s5)"
    using c1 c2 c4 r4 hne ne c5
    by (simp add: process_memory_job_def Let_def)
  show ?thesis
    unfolding body using sqlok
    by (simp add: s4 s5 old update_summary_def sql_call_def tg_call_def Let_def
          split: tg_outcome.splits)
qed

lemma rows_of_cong: "conversations s' = conversations s \<Longrightarrow> rows_of c s' = rows_of c s"
  by (simp add: rows_of_def)

text \<open>C6, as the code has it. When every call to the database succeeds, Telegram accepts
  the typing action of each run and the conversation has a history, two consolidations
  whose completions, stripped, are the non-empty texts \<open>A\<close> and \<open>B\<close> leave as stored summary
  the summary stored before (if there was one: a non-empty text with no leading white
  space, as every summary this handler stores), then \<open>A\<close>, then \<open>B\<close>, each joined to the
  next by two newlines: nothing stored is replaced.\<close>

theorem summaries_accumulate:
  assumes act: "tg E (n_tg s) (SendChatAction chat_id) = TgOk"
    and act2: "tg E (n_tg s + 2) (SendChatAction chat_id) = TgOk"
    and sqlok: "\<forall>n. sql E n = SqlOk"
    and client: "lm_studio_client E"
    and hist: "rows_of chat_id s \<noteq> []"
    and first: "\<forall>m st. llm E (n_llm s) m st = Completion (Some a # as)"
    and second: "\<forall>m st. llm E (Suc (n_llm s)) m st = Completion (Some b # bs)"
    and a: "strip a \<noteq> []" and b: "strip b \<noteq> []"
    and init: "long_term_memory s chat_id = None \<or>
               (\<exists>old. long_term_memory s chat_id = Some old \<and> old \<noteq> [] \<and> \<not> is_space (hd old))"
  shows "long_term_memory
           (snd (process_memory_job E chat_id ctx' (snd (process_memory_job E chat_id ctx s)))) chat_id
         = Some ((case long_term_memory s chat_id of None \<Rightarrow> [] | Some old \<Rightarrow> old @ nl2)
                   @ strip a @ nl2 @ strip b)"
proof -
  let ?s1 = "snd (process_memory_job E chat_id ctx s)"
  let ?s2 = "snd (process_memory_job E chat_id ctx' ?s1)"
  let ?A = "strip a" and ?B = "strip b"
  let ?S1 = "strip (joined_summary (long_term_memory s chat_id) ?A)"
  note run1 = process_memory_job_stores [OF act sqlok hist reply_completion [OF client first] a,
                 where ctx = ctx]
  from run1 client have l1: "long_term_memory ?s1 chat_id = Some ?S1"
    and c1: "conversations ?s1 = conversations s" and n1: "n_llm ?s1 = Suc (n_llm s)"
    and t1: "n_tg ?s1 = n_tg s + 2"
    by simp_all
  from act2 t1 have act1: "tg E (n_tg ?s1) (SendChatAction chat_id) = TgOk" by simp
  from hist rows_of_cong [OF c1] have hist1: "rows_of chat_id ?s1 \<noteq> []" by simp
  from second n1 have second1: "\<forall>m st. llm E (n_llm ?s1) m st = Completion (Some b # bs)" by simp
  note run2 = process_memory_job_stores [OF act1 sqlok hist1 reply_completion [OF client second1] b,
                 where ctx = ctx']
  from run2 l1 have l2: "long_term_memory ?s2 chat_id = Some (strip (joined_summary (Some ?S1) ?B))"
    by simp
  note ea = strip_ends [OF a] and eb = strip_ends [OF b]
  from init show ?thesis
  proof
    assume none: "long_term_memory s chat_id = None"
    with a ea have "?S1 = ?A" by (simp add: strip_joined_first)
    with l2 a b ea eb none show ?thesis by (simp add: strip_joined_next)
  next
    assume "\<exists>old. long_term_memory s chat_id = Some old \<and> old \<noteq> [] \<and> \<not> is_space (hd old)"
    then obtain old where old: "long_term_memory s chat_id = Some old" "old \<noteq> []" "\<not> is_space (hd old)"
      by blast
    with a ea have S1: "?S1 = old @ nl2 @ ?A" by (simp add: strip_joined_next)
    with old have ne1: "?S1 \<noteq> []" and hd1: "\<not> is_space (hd ?S1)" by simp_all
    have "strip (joined_summary (Some ?S1) ?B) = ?S1 @ nl2 @ ?B"
      using ne1 hd1 b eb(2) by (rule strip_joined_next)
    with l2 S1 old show ?thesis by simp
  qed
qed

lemma strip_letters [simp]: "strip ''A'' = ''A''" "strip ''B'' = ''B''"
  by (simp_all add: strip_def is_space_def)

theorem summaries_accumulate_witness:
  "long_term_memory
     (snd (process_memory_job two_summaries_env 7 example_context
        (snd (process_memory_job two_summaries_env 7 example_context talked_world)))) 7
   = Some (''A'' @ nl2 @ ''B'')"
proof -
  let ?E = two_summaries_env
  have 1: "tg ?E (n_tg talked_world) (SendChatAction 7) = TgOk"
    and 10: "tg ?E (n_tg talked_world + 2) (SendChatAction 7) = TgOk"
    and 2: "\<forall>n. sql ?E n = SqlOk" and 3: "lm_studio_client ?E"
    and 5: "\<forall>m st. llm ?E (n_llm talked_world) m st = Completion (Some ''A'' # [])"
    and 6: "\<forall>m st. llm ?E (Suc (n_llm talked_world)) m st = Completion (Some ''B'' # [])"
    by (simp_all add: two_summaries_env_def example_env_def talked_world_def example_world_def)
  have 4: "rows_of 7 talked_world \<noteq> []"
    by (simp add: rows_of_def talked_world_def)
  have 7: "strip ''A'' \<noteq> []" "strip ''B'' \<noteq> []" by simp_all
  have 8: "long_term_memory talked_world 7 = None"
    by (simp add: talked_world_def example_world_def)
  then have 9: "long_term_memory talked_world 7 = None \<or>
     (\<exists>old. long_term_memory talked_world 7 = Some old \<and> old \<noteq> [] \<and> \<not> is_space (hd old))" by simp
  from summaries_accumulate [OF 1 10 2 3 4 5 6 7 9, where ctx = example_context and ctx' = example_context]
  show ?thesis by (simp add: 8)
qed

text \<open>C6, as stated, fails when the read of the stored summary fails (\<^verbatim>\<open>get_summary\<close>
  catches the \<^verbatim>\<open>sqlite3.Error\<close> and returns \<^verbatim>\<open>None\<close>) and the write that follows succeeds:
  with \<open>A\<close> stored, one consolidation producing \<open>B\<close> leaves \<open>B\<close> alone.\<close>

theorem failed_read_replaces_summary:
  "long_term_memory remembering_world 7 = Some ''A'' \<and>
   long_term_memory
     (snd (process_memory_job failed_read_env 7 example_context remembering_world)) 7
   = Some ''B''"
  by (simp add: remembering_world_def talked_world_def example_world_def failed_read_env_def
        example_env_def process_memory_job_def tg_call_def get_history_from_db_def get_summary_def
        update_summary_def sql_call_def get_ai_response_def create_def first_content_def
        joined_summary_def rows_of_def Let_def)

text \<open>C7 fails on the code for a fault. The backend client answers a fault with its fixed
  text, which is not empty, so the consolidation handler appends it to the stored summary
  and announces a new memory: here the request times out, the summary \<open>A\<close> is stored, and
  the summary afterwards is \<open>A\<close> followed by the time-out message.\<close>

theorem fault_text_is_stored_as_memory:
  "long_term_memory
     (snd (process_memory_job (example_env (CreateRaises APITimeoutError)) 7 example_context
             remembering_world)) 7
   = Some (''A'' @ nl2 @ TIMEOUT_MESSAGE) \<and>
   outbox (snd (process_memory_job (example_env (CreateRaises APITimeoutError)) 7 example_context
             remembering_world))
   = [SendChatAction 7, SendMessage 7 MEMORY_FORMED]"
proof -
  let ?E = "example_env (CreateRaises APITimeoutError)"
  have 1: "tg ?E (n_tg remembering_world) (SendChatAction 7) = TgOk" and 2: "\<forall>n. sql ?E n = SqlOk"
    and 3: "lm_studio_client ?E"
    and 4: "\<forall>m st. llm ?E (n_llm remembering_world) m st = CreateRaises APITimeoutError"
    and 9: "tg ?E (Suc (n_tg remembering_world)) (SendMessage 7 MEMORY_FORMED) = TgOk"
    by (simp_all add: example_env_def)
  have 5: "rows_of 7 remembering_world \<noteq> []"
    by (simp add: rows_of_def remembering_world_def talked_world_def)
  have 6: "fault_text APITimeoutError = TIMEOUT_MESSAGE" by (simp add: fault_text_def)
  have 7: "TIMEOUT_MESSAGE \<noteq> []" "\<not> is_space (last TIMEOUT_MESSAGE)"
    by (simp_all add: TIMEOUT_MESSAGE_def is_space_def)
  have 8: "long_term_memory remembering_world 7 = Some ''A''" "outbox remembering_world = []"
    by (simp_all add: remembering_world_def talked_world_def example_world_def)
  have 10: "strip (joined_summary (Some ''A'') TIMEOUT_MESSAGE) = ''A'' @ nl2 @ TIMEOUT_MESSAGE"
    using 7 by (simp add: strip_joined_next is_space_def)
  from process_memory_job_stores [OF 1 2 5 reply_fault [OF 3 4], where ctx = example_context]
  show ?thesis unfolding 6 using 7(1) 8 9 10 by simp
qed

text \<open>The part of C7 that holds: an empty result changes nothing and announces nothing
  (and no handler run ever re-queues a consolidation, by \<open>process_memory_job_queue\<close>).\<close>

lemma process_memory_job_empty_result:
  assumes reply: "\<And>m n s3. n_llm s3 = n_llm s \<Longrightarrow> fst (get_ai_response E m n s3) = Inr []"
  shows "same_store s (snd (process_memory_job E chat_id ctx s)) \<and>
         SendMessage chat_id MEMORY_FORMED \<notin> set (outbox (snd (process_memory_job E chat_id ctx s)))
           - set (outbox s)"
proof -
  obtain r1 s1 where c1: "tg_call E (SendChatAction chat_id) s = (r1, s1)" by force
  note st1 = tg_call_state [OF c1]
  show ?thesis
  proof (cases r1)
    case (Inl e)
    with c1 have "process_memory_job E chat_id ctx s = (Inl e, s1)"
      by (simp add: process_memory_job_def)
    moreover from st1 Inl have "s1 = s\<lparr>n_tg := Suc (n_tg s)\<rparr>"
      by (auto split: tg_outcome.splits)
    ultimately show ?thesis by (simp add: same_store_def)
  next
    case (Inr u)
    obtain h total s2 where c2: "get_history_from_db E chat_id 0 s1 = ((h, total), s2)"
      by (metis surj_pair)
    note st2 = get_history_from_db_state [OF c2]
    let ?msgs = "h @ [\<lparr>role = ''user'', content = CONSOLIDATION_PROMPT\<rparr>]"
    obtain r4 s4 where c4: "get_ai_response E ?msgs (get_user_display_name ctx s2) s2 = (r4, s4)"
      by force
    from st1 st2 have "n_llm s2 = n_llm s" by simp
    from reply [OF this, of ?msgs "get_user_display_name ctx s2"] c4 have r4: "r4 = Inr []" by simp
    note st4 = get_ai_response_state [OF c4]
    from c1 Inr c2 c4 r4 have "snd (process_memory_job E chat_id ctx s) = (if h = [] then s2 else s4)"
      by (simp add: process_memory_job_def)
    with st1 st2 st4 show ?thesis
      by (auto simp: same_store_def split: if_splits)
  qed
qed

section \<open>The dispatcher runs the handlers in order and survives their faults\<close>

lemma dispatch_is_spec_route: "dispatch E j s = spec_route E j s"
  by (simp add: dispatch_def spec_route_def)

lemma ai_worker_iteration_is_spec_turn:
  assumes "REQUEST_QUEUE s = j # q"
  shows "ai_worker_iteration E s = Some (j, spec_turn E j s)"
proof -
  let ?s0 = "s\<lparr>REQUEST_QUEUE := q\<rparr>"
  have g: "queue_get s = Some (j, ?s0)" using assms by (simp add: queue_get_def)
  obtain r s1 where d: "spec_route E j ?s0 = (r, s1)" by force
  show ?thesis
  proof (cases r)
    case (Inl e)
    with d g assms show ?thesis
      by (simp add: ai_worker_iteration_def spec_turn_def dispatch_is_spec_route)
  next
    case (Inr u)
    with d g assms show ?thesis
      by (simp add: ai_worker_iteration_def spec_turn_def dispatch_is_spec_route task_done_def)
  qed
qed

lemma spec_turn_queue:
  assumes "REQUEST_QUEUE s = j # q"
  shows "\<exists>extra. REQUEST_QUEUE (spec_turn E j s) = q @ extra"
  using ai_worker_iteration_takes_head [OF assms, of E] ai_worker_iteration_is_spec_turn [OF assms, of E]
  by auto

lemma ai_worker_run:
  "n \<le> length (REQUEST_QUEUE s) \<Longrightarrow>
   ai_worker n E s = (take n (REQUEST_QUEUE s), fold (spec_turn E) (take n (REQUEST_QUEUE s)) s)"
proof (induction n arbitrary: s)
  case 0
  show ?case by simp
next
  case (Suc n)
  then obtain j q where jq: "REQUEST_QUEUE s = j # q" by (cases "REQUEST_QUEUE s") auto
  note it = ai_worker_iteration_is_spec_turn [OF jq, of E]
  from spec_turn_queue [OF jq, of E] obtain extra
    where q': "REQUEST_QUEUE (spec_turn E j s) = q @ extra" by blast
  from Suc.prems jq q' have "n \<le> length (REQUEST_QUEUE (spec_turn E j s))" by simp
  from Suc.IH [OF this] q' Suc.prems jq
  have "ai_worker n E (spec_turn E j s) = (take n q, fold (spec_turn E) (take n q) (spec_turn E j s))"
    by simp
  with it jq show ?case by simp
qed

lemma send_parts_n_tg: "n_tg s \<le> n_tg (send_parts E c ps s)"
proof (induction ps arbitrary: s)
  case Nil
  show ?case by simp
next
  case (Cons p ps)
  obtain r s1 where c: "tg_call E (ReplyText c p) s = (r, s1)" by force
  from tg_call_state [OF c] have "n_tg s1 = Suc (n_tg s)" by simp
  with c Cons.IH [of s1] show ?case by (cases r) auto
qed

lemma send_as_new_n_tg: "send_as_new E u t s = (r, s1) \<Longrightarrow> n_tg s \<le> n_tg s1"
  using send_parts_n_tg [of s E "effective_chat u" "parts TELEGRAM_MAX_MESSAGE_LENGTH t"]
  by (auto simp: send_as_new_def tg_call_def Let_def split: if_splits tg_outcome.splits)

lemma send_final_response_n_tg: "send_final_response E u t ph s = (r, s1) \<Longrightarrow> n_tg s \<le> n_tg s1"
  by (auto simp: send_final_response_def Let_def
           split: option.splits prod.splits sum.splits py_exn.splits if_splits
           dest!: tg_call_state send_as_new_n_tg)

lemma add_message_to_db_n_tg [simp]: "n_tg (add_message_to_db E c r t s) = n_tg s"
  by (auto simp: add_message_to_db_def sql_call_def split: sql_outcome.splits)

lemma update_summary_n_tg [simp]: "n_tg (update_summary E c t s) = n_tg s"
  by (auto simp: update_summary_def sql_call_def split: sql_outcome.splits)

lemma tg_call_snd_n_tg [simp]: "n_tg (snd (tg_call E ev s)) = Suc (n_tg s)"
  by (simp add: tg_call_def Let_def split: tg_outcome.splits)

lemmas n_tg_frames = tg_call_state get_summary_state get_history_from_db_state
  get_ai_response_state send_final_response_n_tg

lemma process_chat_job_n_tg:
  "n_tg s < n_tg (snd (process_chat_job E upd ctx user_text ph s))"
  by (auto simp: process_chat_job_def Let_def and_then_def consolidate_memory_def queue_put_def
      split: prod.splits sum.splits if_splits dest!: n_tg_frames)

lemma get_ai_response_result:
  "get_ai_response E m n s = (r, s1) \<Longrightarrow>
   (\<exists>t. r = Inr t) \<and> s1 = s\<lparr>n_llm := (if lm_studio_client E then Suc (n_llm s) else n_llm s)\<rparr>"
  using get_ai_response_returns [of E m n s] get_ai_response_state [of E m n s r s1] by auto

lemma process_scene_gen_job_n_tg:
  "n_tg s < n_tg (snd (process_scene_gen_job E upd ctx prompt s))"
  by (auto simp: process_scene_gen_job_def Let_def and_then_def set_generated_scene_def
      split: prod.splits sum.splits if_splits dest!: get_ai_response_result)

lemma process_persona_gen_job_n_tg:
  "n_tg s < n_tg (snd (process_persona_gen_job E upd ctx prompt s))"
  by (auto simp: process_persona_gen_job_def Let_def and_then_def set_generated_persona_def
      split: prod.splits sum.splits if_splits list.splits dest!: get_ai_response_result tg_call_state)

lemma process_memory_job_n_tg:
  "n_tg s < n_tg (snd (process_memory_job E chat_id ctx s))"
  by (auto simp: process_memory_job_def Let_def and_then_def
      split: prod.splits sum.splits if_splits dest!: n_tg_frames)

lemma spec_route_n_tg: "n_tg s < n_tg (snd (spec_route E j s))"
  by (cases j) (simp_all add: spec_route_def process_chat_job_n_tg process_scene_gen_job_n_tg
        process_persona_gen_job_n_tg process_memory_job_n_tg)

lemma spec_turn_n_tg: "n_tg s < n_tg (spec_turn E j s)"
proof -
  let ?s0 = "s\<lparr>REQUEST_QUEUE := tl (REQUEST_QUEUE s)\<rparr>"
  obtain r s1 where d: "spec_route E j ?s0 = (r, s1)" by force
  with spec_route_n_tg [of ?s0 E j] have "n_tg s < n_tg s1" by simp
  with d show ?thesis by (cases r) (simp_all add: spec_turn_def task_done_def)
qed

lemma fold_spec_turn_n_tg: "n_tg s + length js \<le> n_tg (fold (spec_turn E) js s)"
proof (induction js arbitrary: s)
  case Nil
  show ?case by simp
next
  case (Cons j js)
  from Cons.IH [of "spec_turn E j s"] spec_turn_n_tg [of s E j] show ?case by simp
qed

text \<open>C1. Whatever is already queued, when the jobs \<open>js\<close> are enqueued one after the other
  and the worker then runs for as many turns as there are jobs, the jobs it takes are the
  queued ones followed by \<open>js\<close>, in that order, and the state it reaches is the one
  obtained by running, for each of these jobs in that order, the handler of its kind to its
  end on the state the job before it left; every one of these handlers has called Telegram
  at least once.\<close>

theorem ai_worker_fifo:
  "ai_worker (length (REQUEST_QUEUE s) + length js) E (fold queue_put js s)
     = (REQUEST_QUEUE s @ js, fold (spec_turn E) (REQUEST_QUEUE s @ js) (fold queue_put js s))
   \<and> n_tg s + length (REQUEST_QUEUE s @ js)
       \<le> n_tg (snd (ai_worker (length (REQUEST_QUEUE s) + length js) E (fold queue_put js s)))"
proof -
  let ?s' = "fold queue_put js s"
  let ?n = "length (REQUEST_QUEUE s) + length js"
  have run: "ai_worker ?n E ?s' = (REQUEST_QUEUE s @ js, fold (spec_turn E) (REQUEST_QUEUE s @ js) ?s')"
    using ai_worker_run [of ?n ?s' E] by (simp add: fold_queue_put)
  have "n_tg ?s' = n_tg s" by (induction js arbitrary: s) (simp_all add: queue_put_def)
  with fold_spec_turn_n_tg [of ?s' "REQUEST_QUEUE s @ js" E] run show ?thesis by simp
qed

lemma example_strips [simp]: "strip ''ok'' = ''ok''"
  by (simp add: strip_def is_space_def)

lemmas handler_defs = spec_turn_def spec_route_def process_chat_job_def process_scene_gen_job_def
  process_memory_job_def tg_call_def get_history_from_db_def get_summary_def add_message_to_db_def
  sql_call_def get_ai_response_def create_def first_content_def send_final_response_def
  send_as_new_def task_done_def queue_put_def set_generated_scene_def is_memory_enabled_def
  looks_successful_def startswith_def rows_of_def Let_def

theorem ai_worker_fifo_witness:
  "fst (ai_worker 3 (example_env (Completion [Some ''ok''])) (fold queue_put example_jobs example_world))
     = example_jobs \<and>
   outbox (snd (ai_worker 3 (example_env (Completion [Some ''ok'']))
                  (fold queue_put example_jobs example_world)))
     = [SendChatAction 7,
        ReplyText 7 (''<b>Generated Scene:</b>'' @ nl2 @ ''<i>ok</i>''),
        SendChatAction 7, ReplyText 7 ''ok''] \<and>
   conversations (snd (ai_worker 3 (example_env (Completion [Some ''ok'']))
                  (fold queue_put example_jobs example_world)))
     = [(7, ''user'', ''hello''), (7, ''assistant'', ''ok'')]"
proof -
  let ?E = "example_env (Completion [Some ''ok''])"
  have n: "length example_jobs = 3"
    and q: "REQUEST_QUEUE example_world = []"
    by (simp_all add: example_world_def example_jobs_def)
  have run: "ai_worker 3 ?E (fold queue_put example_jobs example_world)
      = (example_jobs, fold (spec_turn ?E) example_jobs (fold queue_put example_jobs example_world))"
    using ai_worker_fifo [of example_world example_jobs ?E]
    unfolding q n by simp
  have "outbox (fold (spec_turn ?E) example_jobs (fold queue_put example_jobs example_world))
     = [SendChatAction 7,
        ReplyText 7 (''<b>Generated Scene:</b>'' @ nl2 @ ''<i>ok</i>''),
        SendChatAction 7, ReplyText 7 ''ok'']"
    by (simp add: example_jobs_def example_world_def example_env_def handler_defs
          TELEGRAM_MAX_MESSAGE_LENGTH_def MASTER_MEMORY_SWITCH_def MEMORY_CONSOLIDATION_INTERVAL_def
          MAX_HISTORY_MESSAGES_def)
  moreover have "conversations (fold (spec_turn ?E) example_jobs (fold queue_put example_jobs example_world))
     = [(7, ''user'', ''hello''), (7, ''assistant'', ''ok'')]"
    by (simp add: example_jobs_def example_world_def example_env_def handler_defs
          TELEGRAM_MAX_MESSAGE_LENGTH_def MASTER_MEMORY_SWITCH_def MEMORY_CONSOLIDATION_INTERVAL_def
          MAX_HISTORY_MESSAGES_def)
  ultimately show ?thesis unfolding run by simp
qed

text \<open>C3. When the handler of the job at the head of the queue raises an exception \<open>e\<close>,
  leaving the state \<open>s1\<close>, the turn of the loop ends on that state, the count of unfinished
  tasks settled as the \<^verbatim>\<open>except\<close> branch settles it, and the loop goes on: over the next
  turns it takes every job that was behind the failed one, in order, and runs the handler
  of each to its end, every one of them calling Telegram at least once.\<close>

theorem ai_worker_survives_handler_fault:
  assumes q: "REQUEST_QUEUE s = j # rest"
    and raised: "spec_route E j (s\<lparr>REQUEST_QUEUE := rest\<rparr>) = (Inl e, s1)"
  shows "ai_worker_iteration E s
           = Some (j, if REQUEST_QUEUE s1 \<noteq> [] then snd (task_done s1) else s1)
       \<and> ai_worker (Suc (length rest)) E s
           = (j # rest,
              fold (spec_turn E) rest (if REQUEST_QUEUE s1 \<noteq> [] then snd (task_done s1) else s1))
       \<and> n_tg s1 + length rest \<le> n_tg (snd (ai_worker (Suc (length rest)) E s))"
proof -
  let ?left = "if REQUEST_QUEUE s1 \<noteq> [] then snd (task_done s1) else s1"
  from q raised have turn: "spec_turn E j s = ?left" by (simp add: spec_turn_def)
  with ai_worker_iteration_is_spec_turn [OF q, of E]
  have it: "ai_worker_iteration E s = Some (j, ?left)" by simp
  from ai_worker_run [of "Suc (length rest)" s E] q turn
  have run: "ai_worker (Suc (length rest)) E s = (j # rest, fold (spec_turn E) rest ?left)" by simp
  have "n_tg ?left = n_tg s1" by (simp add: task_done_def)
  with fold_spec_turn_n_tg [of ?left rest E] run it show ?thesis by simp
qed

theorem ai_worker_survives_handler_fault_witness:
  "fst (spec_route tg_down_env (hd example_jobs)
          ((fold queue_put example_jobs example_world)\<lparr>REQUEST_QUEUE := tl example_jobs\<rparr>))
     = Inl TelegramError \<and>
   fst (ai_worker 3 tg_down_env (fold queue_put example_jobs example_world)) = example_jobs \<and>
   outbox (snd (ai_worker 3 tg_down_env (fold queue_put example_jobs example_world)))
     = [ReplyText 7 (''<b>Generated Scene:</b>'' @ nl2 @ ''<i>ok</i>''),
        SendChatAction 7, ReplyText 7 ''ok''] \<and>
   conversations (snd (ai_worker 3 tg_down_env (fold queue_put example_jobs example_world)))
     = [(7, ''user'', ''hello''), (7, ''assistant'', ''ok'')]"
proof -
  let ?start = "fold queue_put example_jobs example_world"
  let ?taken = "?start\<lparr>REQUEST_QUEUE := tl example_jobs\<rparr>"
  let ?left = "snd (spec_route tg_down_env (hd example_jobs) ?taken)"
  have n: "Suc (length (tl example_jobs)) = 3" and e: "hd example_jobs # tl example_jobs = example_jobs"
    by (simp_all add: example_jobs_def)
  have "REQUEST_QUEUE example_world = []" by (simp add: example_world_def)
  then have q: "REQUEST_QUEUE ?start = hd example_jobs # tl example_jobs"
    unfolding e by (simp add: fold_queue_put)
  have fault: "fst (spec_route tg_down_env (hd example_jobs) ?taken) = Inl TelegramError"
    by (simp add: example_world_def example_jobs_def tg_down_env_def example_env_def spec_route_def
        process_memory_job_def tg_call_def queue_put_def)
  then have raised: "spec_route tg_down_env (hd example_jobs) ?taken = (Inl TelegramError, ?left)"
    by (simp add: prod_eq_iff)
  from ai_worker_survives_handler_fault [OF q raised]
  have run: "ai_worker 3 tg_down_env ?start
      = (example_jobs,
         fold (spec_turn tg_down_env) (tl example_jobs)
           (if REQUEST_QUEUE ?left \<noteq> [] then snd (task_done ?left) else ?left))"
    unfolding n e by simp
  have "outbox (fold (spec_turn tg_down_env) (tl example_jobs)
           (if REQUEST_QUEUE ?left \<noteq> [] then snd (task_done ?left) else ?left))
     = [ReplyText 7 (''<b>Generated Scene:</b>'' @ nl2 @ ''<i>ok</i>''),
        SendChatAction 7, ReplyText 7 ''ok'']"
    by (simp add: example_jobs_def example_world_def tg_down_env_def example_env_def handler_defs
          TELEGRAM_MAX_MESSAGE_LENGTH_def MASTER_MEMORY_SWITCH_def MEMORY_CONSOLIDATION_INTERVAL_def
          MAX_HISTORY_MESSAGES_def)
  moreover have "conversations (fold (spec_turn tg_down_env) (tl example_jobs)
           (if REQUEST_QUEUE ?left \<noteq> [] then snd (task_done ?left) else ?left))
     = [(7, ''user'', ''hello''), (7, ''assistant'', ''ok'')]"
    by (simp add: example_jobs_def example_world_def tg_down_env_def example_env_def handler_defs
          TELEGRAM_MAX_MESSAGE_LENGTH_def MASTER_MEMORY_SWITCH_def MEMORY_CONSOLIDATION_INTERVAL_def
          MAX_HISTORY_MESSAGES_def)
  ultimately show ?thesis unfolding run using fault by simp
qed

section \<open>The consolidation threshold\<close>

text \<open>C4 fails on the code. The handler tests the count read before its two writes, plus
  two, for a multiple of 15; the messages are stored two at a time, so the count is always
  even. Eight chat messages on a new conversation, long-term memory enabled: the eighth
  turn brings the count from 14 to 16, past 15, and queues no consolidation.\<close>

theorem consolidation_skips_fifteen:
  "is_memory_enabled example_context example_world \<and>
   length (rows_of 7 (snd (ai_worker 7 (example_env (Completion [Some ''ok'']))
                             (fold queue_put eight_hellos example_world)))) = 14 \<and>
   ai_worker_iteration (example_env (Completion [Some ''ok'']))
       (snd (ai_worker 7 (example_env (Completion [Some ''ok'']))
                             (fold queue_put eight_hellos example_world)))
     = Some (hello_job, snd (ai_worker 8 (example_env (Completion [Some ''ok'']))
                             (fold queue_put eight_hellos example_world))) \<and>
   length (rows_of 7 (snd (ai_worker 8 (example_env (Completion [Some ''ok'']))
                             (fold queue_put eight_hellos example_world)))) = 16 \<and>
   REQUEST_QUEUE (snd (ai_worker 8 (example_env (Completion [Some ''ok'']))
                             (fold queue_put eight_hellos example_world))) = []"
proof -
  let ?E = "example_env (Completion [Some ''ok''])"
  let ?start = "fold queue_put eight_hellos example_world"
  have q: "REQUEST_QUEUE ?start = eight_hellos"
    by (simp add: fold_queue_put example_world_def)
  have l: "length eight_hellos = 8" by (simp add: eight_hellos_def)
  have t7: "take 7 eight_hellos = [hello_job, hello_job, hello_job, hello_job, hello_job, hello_job, hello_job]"
    by (simp add: eight_hellos_def)
  have r7: "snd (ai_worker 7 ?E ?start) = fold (spec_turn ?E) (take 7 eight_hellos) ?start"
    using ai_worker_run [of 7 ?start ?E] by (simp add: q l)
  have r8: "snd (ai_worker 8 ?E ?start) = fold (spec_turn ?E) eight_hellos ?start"
    using ai_worker_run [of 8 ?start ?E] by (simp add: q l)
  have e: "is_memory_enabled example_context example_world"
    by (simp add: is_memory_enabled_def example_world_def MASTER_MEMORY_SWITCH_def)
  have c7: "length (rows_of 7 (fold (spec_turn ?E) (take 7 eight_hellos) ?start)) = 14"
    and q7: "REQUEST_QUEUE (fold (spec_turn ?E) (take 7 eight_hellos) ?start) = [hello_job]"
    unfolding t7
    by (simp_all add: eight_hellos_def hello_job_def example_update_def example_context_def
          example_world_def example_env_def handler_defs
          TELEGRAM_MAX_MESSAGE_LENGTH_def MASTER_MEMORY_SWITCH_def MEMORY_CONSOLIDATION_INTERVAL_def
          MAX_HISTORY_MESSAGES_def)
  have c8: "length (rows_of 7 (fold (spec_turn ?E) eight_hellos ?start)) = 16"
    and q8: "REQUEST_QUEUE (fold (spec_turn ?E) eight_hellos ?start) = []"
    by (simp_all add: eight_hellos_def hello_job_def example_update_def example_context_def
          example_world_def example_env_def handler_defs
          TELEGRAM_MAX_MESSAGE_LENGTH_def MASTER_MEMORY_SWITCH_def MEMORY_CONSOLIDATION_INTERVAL_def
          MAX_HISTORY_MESSAGES_def)
  have step: "fold (spec_turn ?E) eight_hellos ?start
                = spec_turn ?E hello_job (fold (spec_turn ?E) (take 7 eight_hellos) ?start)"
    unfolding t7 by (simp add: eight_hellos_def)
  from ai_worker_iteration_is_spec_turn [OF q7, of ?E] step
  have it: "ai_worker_iteration ?E (fold (spec_turn ?E) (take 7 eight_hellos) ?start)
              = Some (hello_job, fold (spec_turn ?E) eight_hellos ?start)" by simp
  show ?thesis unfolding r7 r8 using e c7 c8 q8 it by simp
qed

end
